theory Spec2Isabelle
  imports Complex_Main
begin

section \<open>Responses, exceptions and Python values\<close>

text \<open>
  Every handler of the repository ends in \<^verbatim>\<open>create_response(status_code, body)\<close>.
  A response is modelled by its status code and its body: \<open>Success\<close> carries the body of a
  2xx answer, \<open>Failure\<close> the status code, the \<^verbatim>\<open>error\<close> category and the
  \<^verbatim>\<open>message\<close> of an error body. The CORS headers are the same constant on every
  response and are left out.

  A Python exception that reaches the outermost \<^verbatim>\<open>except Exception\<close> of a handler
  becomes the 500 answer \<^verbatim>\<open>Internal Server Error\<close>; its message is the text of the
  exception, for which the model writes the name of the exception class. A message that
  the source formats with a value (the status of an inactive assignment, a content type)
  is written without the value.

  A handler is modelled from the point where it has read its request: the path
  parameters, the query parameters and the fields of the JSON body are its arguments,
  with the types the interface gives them, and the claims of the caller (user id, email,
  name, role) as well. The tables are passed in and, when the handler writes, returned.
  The store answers every well-formed call, except where a handler has an \<^verbatim>\<open>except\<close>
  clause of its own for a failing call; there, whether the call fails is an argument of
  the model. It rejects a call that is not well-formed: a \<^verbatim>\<open>put_item\<close> of an item
  without an attribute of the table's key, a query with a limit below 1 or with a start
  key that is no key of the index, an update that adds to an attribute the item does not
  have. The clock and \<^verbatim>\<open>uuid.uuid4()\<close> are arguments too.
\<close>

datatype exn =
    KeyError | ValueError | TypeError | RecursionError | ClientError | ParamValidationError

datatype 'a response = Success int 'a | Failure int string string

fun exn_text :: "exn \<Rightarrow> string" where
  "exn_text KeyError = ''KeyError''"
| "exn_text ValueError = ''ValueError''"
| "exn_text TypeError = ''TypeError''"
| "exn_text RecursionError = ''RecursionError''"
| "exn_text ClientError = ''ClientError''"
| "exn_text ParamValidationError = ''ParamValidationError''"

definition internal_error :: "exn \<Rightarrow> 'a response" where
  "internal_error e = Failure 500 ''Internal Server Error'' (exn_text e)"

definition bad_request :: "string \<Rightarrow> 'a response" where
  "bad_request msg = Failure 400 ''Bad Request'' msg"

definition not_found :: "string \<Rightarrow> 'a response" where
  "not_found msg = Failure 404 ''Not Found'' msg"

definition forbidden :: "string \<Rightarrow> 'a response" where
  "forbidden msg = Failure 403 ''Forbidden'' msg"

text \<open>
  \<^verbatim>\<open>if not x\<close> on a path parameter or a body field that is a string or absent: true for
  \<^verbatim>\<open>None\<close> and for the empty string.
\<close>

definition py_not :: "string option \<Rightarrow> bool" where
  "py_not v = (case v of None \<Rightarrow> True | Some s \<Rightarrow> s = [])"

text \<open>
  \<^verbatim>\<open>str.lower()\<close> on ASCII text: the letters \<^verbatim>\<open>A\<close> to \<^verbatim>\<open>Z\<close> are mapped, every other
  character is left as it is. Python maps the upper-case letters outside ASCII as well;
  on a string with such a letter the model's \<open>lower\<close> is not Python's.
\<close>

definition lower_char :: "char \<Rightarrow> char" where
  "lower_char c =
     (case map_of (zip ''ABCDEFGHIJKLMNOPQRSTUVWXYZ'' ''abcdefghijklmnopqrstuvwxyz'') c of
        Some l \<Rightarrow> l
      | None \<Rightarrow> c)"

definition lower :: "string \<Rightarrow> string" where
  "lower s = map lower_char s"

subsection \<open>Timestamps\<close>

text \<open>
  A \<^verbatim>\<open>datetime\<close> is its wall-clock reading (microseconds since the epoch, as the
  fields year to microsecond spell it) and its \<^verbatim>\<open>tzinfo\<close>: \<open>None\<close> for a naive
  value, \<open>Some off\<close> for an aware one with UTC offset \<open>off\<close> (microseconds).

  \<^verbatim>\<open>datetime.utcnow()\<close> is naive and reads the UTC clock; \<^verbatim>\<open>d.replace(tzinfo=tz)\<close>
  keeps the wall-clock fields and swaps the label. Python compares two naive values by
  their wall clocks, two aware values by their UTC instants (wall clock minus offset),
  and raises \<^verbatim>\<open>TypeError\<close> on a naive and an aware one.
\<close>

datatype datetime = Datetime (wall: int) (tzinfo: "int option")

definition utcnow :: "int \<Rightarrow> datetime" where
  "utcnow clock = Datetime clock None"

definition replace_tzinfo :: "datetime \<Rightarrow> int option \<Rightarrow> datetime" where
  "replace_tzinfo d tz = Datetime (wall d) tz"

definition dt_gt :: "datetime \<Rightarrow> datetime \<Rightarrow> exn + bool" where
  "dt_gt a b =
     (case (tzinfo a, tzinfo b) of
        (None, None) \<Rightarrow> Inr (wall b < wall a)
      | (Some oa, Some ob) \<Rightarrow> Inr (wall b - ob < wall a - oa)
      | _ \<Rightarrow> Inl TypeError)"

text \<open>
  A timestamp attribute that a client or another service wrote (\<^verbatim>\<open>expiresAt\<close>,
  \<^verbatim>\<open>dueDate\<close>) is a string. The handlers only ever read it through
  \<^verbatim>\<open>datetime.fromisoformat(s.replace("Z", "+00:00"))\<close>, so the model keeps of the
  string what that call makes of it: the datetime it returns, or \<open>Not_iso\<close> when the
  call raises (\<^verbatim>\<open>ValueError\<close> for a string that is no ISO timestamp). A string
  ending in \<^verbatim>\<open>Z\<close> reads as an aware datetime with offset 0.
\<close>

datatype iso_text = Iso datetime | Not_iso

definition fromisoformat :: "iso_text \<Rightarrow> exn + datetime" where
  "fromisoformat s = (case s of Iso d \<Rightarrow> Inr d | Not_iso \<Rightarrow> Inl ValueError)"

text \<open>
  The comparison every handler writes inline:
  \<^verbatim>\<open>
  expiry = datetime.fromisoformat(share["expiresAt"].replace("Z", "+00:00"))
  if datetime.utcnow().replace(tzinfo=expiry.tzinfo) > expiry: ...
  \<close>
  with the reading \<open>clock\<close> of the UTC clock at that moment.
\<close>

definition now_after :: "int \<Rightarrow> iso_text \<Rightarrow> exn + bool" where
  "now_after clock s =
     (case fromisoformat s of
        Inl e \<Rightarrow> Inl e
      | Inr expiry \<Rightarrow> dt_gt (replace_tzinfo (utcnow clock) (tzinfo expiry)) expiry)"

section \<open>The tables\<close>

text \<open>
  An item of a table is a record; an attribute that the handlers read with
  \<^verbatim>\<open>.get\<close> or test with \<^verbatim>\<open>in\<close> is an option, and so is every attribute of a file
  but its key, because \<^verbatim>\<open>handle_failed_upload\<close> can create an item that has nothing
  but the key, the status and the modification time. A timestamp the handlers write
  themselves (\<^verbatim>\<open>datetime.utcnow().isoformat() + "Z"\<close>) is the clock reading it spells.

  A table is the list of its items, in the order a query returns them.
\<close>

record file_item =
  f_userId :: string
  f_fileId :: string
  f_filename :: "string option"
  f_fileSize :: "int option"
  f_contentType :: "string option"
  f_status :: "string option"
  f_s3Key :: "string option"
  f_uploadedAt :: "int option"
  f_lastModified :: "int option"
  f_checksum :: "string option"
  f_virusScanStatus :: "string option"

record share_item =
  sh_shareId :: string
  sh_fileId :: string
  sh_ownerId :: string
  sh_sharedWithUserId :: string
  sh_sharedWithEmail :: string
  sh_permissions :: string
  sh_sharedAt :: int
  sh_status :: string
  sh_accessCount :: "int option"
  sh_message :: "string option"
  sh_expiresAt :: "iso_text option"
  sh_lastAccessedAt :: "int option"
  sh_revokedAt :: "int option"

record user_item =
  u_userId :: string
  u_email :: string

text \<open>
  \<^verbatim>\<open>files_table.query(IndexName="FileIdIndex", KeyConditionExpression=Key("fileId").eq(file_id))["Items"]\<close>
\<close>

definition query_FileIdIndex :: "file_item list \<Rightarrow> string \<Rightarrow> file_item list" where
  "query_FileIdIndex files_table file_id = filter (\<lambda>f. f_fileId f = file_id) files_table"

text \<open>
  \<^verbatim>\<open>shares_table.query(KeyConditionExpression=Key("fileId").eq(file_id))\<close>: the partition
  of the file in the shares table, whose primary key is (fileId, sharedWithUserId).
\<close>

definition query_shares_of_file :: "share_item list \<Rightarrow> string \<Rightarrow> share_item list" where
  "query_shares_of_file shares_table file_id = filter (\<lambda>s. sh_fileId s = file_id) shares_table"

definition query_ShareIdIndex :: "share_item list \<Rightarrow> string \<Rightarrow> share_item list" where
  "query_ShareIdIndex shares_table share_id = filter (\<lambda>s. sh_shareId s = share_id) shares_table"

definition share_key :: "share_item \<Rightarrow> string \<times> string" where
  "share_key s = (sh_fileId s, sh_sharedWithUserId s)"

text \<open>
  \<^verbatim>\<open>put_item\<close> writes the item under its primary key: an item that has the key already
  is replaced.
\<close>

definition put_share :: "share_item list \<Rightarrow> share_item \<Rightarrow> share_item list" where
  "put_share shares_table item =
     filter (\<lambda>s. share_key s \<noteq> share_key item) shares_table @ [item]"

section \<open>share\_file.py\<close>

subsection \<open>handle\_list\_shares\<close>

record formatted_share =
  fs_shareId :: string
  fs_userId :: string
  fs_email :: string
  fs_sharedAt :: int
  fs_permissions :: string
  fs_status :: string
  fs_accessCount :: int
  fs_expiresAt :: "iso_text option"
  fs_lastAccessedAt :: "int option"

record list_shares_body =
  ls_fileId :: string
  ls_filename :: string
  ls_shares :: "formatted_share list"
  ls_total :: int

definition format_share :: "share_item \<Rightarrow> formatted_share" where
  "format_share share =
     \<lparr> fs_shareId = sh_shareId share,
       fs_userId = sh_sharedWithUserId share,
       fs_email = sh_sharedWithEmail share,
       fs_sharedAt = sh_sharedAt share,
       fs_permissions = sh_permissions share,
       fs_status = sh_status share,
       fs_accessCount = (case sh_accessCount share of None \<Rightarrow> 0 | Some n \<Rightarrow> n),
       fs_expiresAt = sh_expiresAt share,
       fs_lastAccessedAt = sh_lastAccessedAt share \<rparr>"

text \<open>
  The loop \<^verbatim>\<open>for share in shares\<close> of \<^verbatim>\<open>handle_list_shares\<close>, with the list
  \<^verbatim>\<open>active_shares\<close> built so far. An exception leaves the loop and the handler.
\<close>

fun active_shares_loop ::
  "int \<Rightarrow> share_item list \<Rightarrow> formatted_share list \<Rightarrow> exn + formatted_share list" where
  "active_shares_loop clock [] active_shares = Inr active_shares"
| "active_shares_loop clock (share # rest) active_shares =
     (if sh_status share \<noteq> ''active'' then active_shares_loop clock rest active_shares
      else case sh_expiresAt share of
        None \<Rightarrow> active_shares_loop clock rest (active_shares @ [format_share share])
      | Some s \<Rightarrow>
          (case now_after clock s of
             Inl e \<Rightarrow> Inl e
           | Inr True \<Rightarrow> active_shares_loop clock rest active_shares
           | Inr False \<Rightarrow> active_shares_loop clock rest (active_shares @ [format_share share])))"

definition handle_list_shares ::
  "file_item list \<Rightarrow> share_item list \<Rightarrow> int \<Rightarrow> string option \<Rightarrow> string
     \<Rightarrow> list_shares_body response" where
  "handle_list_shares files_table shares_table clock file_id user_id =
     (case file_id of
        None \<Rightarrow> bad_request ''File ID is required''
      | Some fid \<Rightarrow>
          if fid = [] then bad_request ''File ID is required''
          else case query_FileIdIndex files_table fid of
            [] \<Rightarrow> not_found ''File not found''
          | file_item # _ \<Rightarrow>
              if f_userId file_item \<noteq> user_id
              then forbidden ''You can only view shares for files you own''
              else case active_shares_loop clock (query_shares_of_file shares_table fid) [] of
                Inl e \<Rightarrow> internal_error e
              | Inr active_shares \<Rightarrow>
                  (case f_filename file_item of
                     None \<Rightarrow> internal_error KeyError
                   | Some filename \<Rightarrow>
                       Success 200
                         \<lparr> ls_fileId = fid, ls_filename = filename,
                           ls_shares = active_shares,
                           ls_total = int (length active_shares) \<rparr>))"

text \<open>
  What the loop keeps, said once: the stored status is \<^verbatim>\<open>active\<close> and the expiry, when
  the share has one, reads as a timestamp whose wall clock is not before the UTC clock.
\<close>

definition listed :: "int \<Rightarrow> share_item \<Rightarrow> bool" where
  "listed clock share =
     (sh_status share = ''active'' \<and>
      (case sh_expiresAt share of
         None \<Rightarrow> True
       | Some Not_iso \<Rightarrow> False
       | Some (Iso expiry) \<Rightarrow> clock \<le> wall expiry))"

subsection \<open>handle\_revoke\_share\<close>

record revoke_body =
  rv_success :: bool
  rv_message :: string
  rv_shareId :: string

text \<open>
  \<^verbatim>\<open>
  shares_table.update_item(
      Key={"fileId": file_id, "sharedWithUserId": share["sharedWithUserId"]},
      UpdateExpression="SET #status = :status, revokedAt = :timestamp", ...)
  \<close>
  The handler calls it with the key of an item it has just read from the table, so the
  key is there and the item under it is changed.
\<close>

definition update_share_revoked ::
  "share_item list \<Rightarrow> string \<times> string \<Rightarrow> int \<Rightarrow> share_item list" where
  "update_share_revoked shares_table key clock =
     map (\<lambda>s. if share_key s = key
              then s\<lparr>sh_status := ''revoked'', sh_revokedAt := Some clock\<rparr> else s)
       shares_table"

definition handle_revoke_share ::
  "file_item list \<Rightarrow> share_item list \<Rightarrow> int \<Rightarrow> string option \<Rightarrow> string option \<Rightarrow> string
     \<Rightarrow> revoke_body response \<times> share_item list" where
  "handle_revoke_share files_table shares_table clock file_id share_id user_id =
     (case (file_id, share_id) of
        (Some fid, Some sid) \<Rightarrow>
          if fid = [] \<or> sid = []
          then (bad_request ''File ID and Share ID are required'', shares_table)
          else (case query_FileIdIndex files_table fid of
            [] \<Rightarrow> (not_found ''File not found'', shares_table)
          | file_item # _ \<Rightarrow>
              if f_userId file_item \<noteq> user_id
              then (forbidden ''You can only revoke shares for files you own'', shares_table)
              else (case query_ShareIdIndex shares_table sid of
                [] \<Rightarrow> (not_found ''Share not found'', shares_table)
              | share # _ \<Rightarrow>
                  if sh_fileId share \<noteq> fid
                  then (bad_request ''Share does not belong to this file'', shares_table)
                  else
                    (Success 200
                       \<lparr> rv_success = True, rv_message = ''Share access revoked'',
                         rv_shareId = sid \<rparr>,
                     update_share_revoked shares_table (fid, sh_sharedWithUserId share) clock)))
      | _ \<Rightarrow> (bad_request ''File ID and Share ID are required'', shares_table))"

subsection \<open>handle\_share\_file\<close>

text \<open>
  What the handler takes from outside the tables: the values \<^verbatim>\<open>uuid.uuid4()\<close> returns
  (the \<open>n\<close>-th call returns \<open>uuid4 n\<close>), the UTC clock when the share of the \<open>i\<close>-th
  recipient is stamped, whether notifications are switched on
  (\<^verbatim>\<open>ENABLE_NOTIFICATIONS and SNS_TOPIC_ARN\<close>), and whether the store raises where the
  handler has an \<^verbatim>\<open>except\<close> clause of its own for it: in the query for the file (a
  \<^verbatim>\<open>ClientError\<close>, answered with a 500), and, while the \<open>i\<close>-th recipient is processed,
  in the user lookup and in the lookup of an existing share (both helpers catch every
  exception and return \<^verbatim>\<open>None\<close>) and in \<^verbatim>\<open>put_item\<close> (a \<^verbatim>\<open>ClientError\<close>, caught
  inside the loop).

  \<^verbatim>\<open>send_share_notification\<close> catches its own exceptions and changes nothing the handler
  returns or stores; but its argument \<^verbatim>\<open>file_item["filename"]\<close> is evaluated in the
  loop, inside a \<^verbatim>\<open>try\<close> that catches \<^verbatim>\<open>ClientError\<close> only, so a file without a filename
  ends the handler there with a \<^verbatim>\<open>KeyError\<close>. The \<^verbatim>\<open>ttl\<close> attribute, which the store
  uses to delete expired items on its own, is not modelled.
\<close>

record env =
  uuid4 :: "nat \<Rightarrow> string"
  utc_clock :: "nat \<Rightarrow> int"
  notifications :: bool
  file_query_raises :: bool
  user_lookup_raises :: "nat \<Rightarrow> bool"
  share_lookup_raises :: "nat \<Rightarrow> bool"
  put_item_raises :: "nat \<Rightarrow> bool"

record recipient =
  r_email :: "string option"
  r_permissions :: "string option"

record share_request =
  rq_recipients :: "recipient list"
  rq_message :: string
  rq_expiresAt :: "iso_text option"

record shared_entry =
  se_shareId :: string
  se_email :: string
  se_sharedAt :: int
  se_expiresAt :: "iso_text option"
  se_status :: string

record failed_entry =
  fe_email :: "string option"
  fe_error :: string

record share_file_body =
  sf_shared :: "shared_entry list"
  sf_failed :: "failed_entry list"
  sf_totalShared :: int
  sf_totalFailed :: int

text \<open>
  \<^verbatim>\<open>get_user_by_email\<close>: the first user whose stored email is the lower-cased address, or
  \<^verbatim>\<open>None\<close> when there is none or the query raised.
\<close>

definition get_user_by_email :: "bool \<Rightarrow> user_item list \<Rightarrow> string \<Rightarrow> user_item option" where
  "get_user_by_email raises users_table email =
     (if raises then None
      else case filter (\<lambda>u. u_email u = lower email) users_table of
        [] \<Rightarrow> None
      | u # _ \<Rightarrow> Some u)"

text \<open>
  \<^verbatim>\<open>check_existing_share\<close>: the item of the shares table under the key
  (file\_id, user\_id), or \<^verbatim>\<open>None\<close> when there is none or the query raised.
\<close>

definition check_existing_share ::
  "bool \<Rightarrow> share_item list \<Rightarrow> string \<Rightarrow> string \<Rightarrow> share_item option" where
  "check_existing_share raises shares_table file_id user_id =
     (if raises then None
      else case filter (\<lambda>s. share_key s = (file_id, user_id)) shares_table of
        [] \<Rightarrow> None
      | s # _ \<Rightarrow> Some s)"

text \<open>
  The state of the loop \<^verbatim>\<open>for recipient in recipients\<close>: the shares table, the two
  result lists, and how many uuids have been drawn.
\<close>

record share_loop_state =
  st_shares_table :: "share_item list"
  successful_shares :: "shared_entry list"
  failed_shares :: "failed_entry list"
  uuids_drawn :: nat

definition append_failed :: "share_loop_state \<Rightarrow> string option \<Rightarrow> string \<Rightarrow> share_loop_state" where
  "append_failed st email err =
     st\<lparr>failed_shares := failed_shares st @ [\<lparr> fe_email = email, fe_error = err \<rparr>]\<rparr>"

text \<open>
  One pass through the body of the loop, for the \<open>i\<close>-th recipient: the next state of
  the loop (\<^verbatim>\<open>continue\<close> or the end of the body), or the exception that leaves the loop
  together with the shares table as it is by then. The \<^verbatim>\<open>try\<close> inside the body catches
  \<^verbatim>\<open>ClientError\<close> only.

  The request has the types of the interface: every recipient is an object whose
  \<^verbatim>\<open>email\<close> and \<^verbatim>\<open>permissions\<close>, when present, are strings, and the message is a string.
  A body of other types is no value of \<open>share_request\<close>; on such a body the source raises
  inside the loop (\<^verbatim>\<open>AttributeError\<close> at \<^verbatim>\<open>recipient.get\<close> for a recipient that is no
  object, \<^verbatim>\<open>TypeError\<close> at \<^verbatim>\<open>"@" not in recipient_email\<close> for an email that is a number,
  \<^verbatim>\<open>TypeError\<close> at \<^verbatim>\<open>message[:500]\<close> for a message that is a number), and, like the
  \<^verbatim>\<open>KeyError\<close> below, the exception ends the handler with a 500.
\<close>

definition process_recipient ::
  "env \<Rightarrow> user_item list \<Rightarrow> file_item \<Rightarrow> string \<Rightarrow> string \<Rightarrow> string \<Rightarrow> share_request \<Rightarrow> nat
     \<Rightarrow> recipient \<Rightarrow> share_loop_state \<Rightarrow> (exn \<times> share_item list) + share_loop_state" where
  "process_recipient env users_table file_item file_id user_id user_email rq i recipient st =
     (if py_not (r_email recipient) then Inr (append_failed st None ''Missing email'')
      else
        let recipient_email = (case r_email recipient of Some e \<Rightarrow> e | None \<Rightarrow> []);
            permissions = (case r_permissions recipient of Some p \<Rightarrow> p | None \<Rightarrow> ''read'')
        in
        if CHR ''@'' \<notin> set recipient_email \<or> CHR ''.'' \<notin> set recipient_email
        then Inr (append_failed st (Some recipient_email) ''Invalid email format'')
        else if lower recipient_email = lower user_email
        then Inr (append_failed st (Some recipient_email) ''Cannot share with yourself'')
        else
          let recipient_user = get_user_by_email (user_lookup_raises env i) users_table recipient_email;
              recipient_user_id =
                (case recipient_user of
                   None \<Rightarrow> ''pending-'' @ uuid4 env (uuids_drawn st)
                 | Some u \<Rightarrow> u_userId u);
              st1 = (case recipient_user of
                   None \<Rightarrow> st\<lparr>uuids_drawn := Suc (uuids_drawn st)\<rparr>
                 | Some u \<Rightarrow> st);
              existing_share =
                check_existing_share (share_lookup_raises env i) (st_shares_table st1)
                  file_id recipient_user_id
          in
          if (case existing_share of None \<Rightarrow> False | Some e \<Rightarrow> sh_status e = ''active'')
          then Inr (append_failed st1 (Some recipient_email) ''File already shared with this user'')
          else
            let share_id = uuid4 env (uuids_drawn st1);
                st2 = st1\<lparr>uuids_drawn := Suc (uuids_drawn st1)\<rparr>;
                timestamp = utc_clock env i;
                share_item =
                  \<lparr> sh_shareId = share_id, sh_fileId = file_id, sh_ownerId = user_id,
                    sh_sharedWithUserId = recipient_user_id,
                    sh_sharedWithEmail = recipient_email,
                    sh_permissions = permissions, sh_sharedAt = timestamp,
                    sh_status = ''active'', sh_accessCount = Some 0,
                    sh_message = (if rq_message rq = [] then None
                                  else Some (take 500 (rq_message rq))),
                    sh_expiresAt = rq_expiresAt rq,
                    sh_lastAccessedAt = None, sh_revokedAt = None \<rparr>
            in
            if put_item_raises env i
            then Inr (append_failed st2 (Some recipient_email) ''Failed to create share'')
            else if notifications env \<and> f_filename file_item = None
            then Inl (KeyError, put_share (st_shares_table st2) share_item)
            else Inr (st2\<lparr> st_shares_table := put_share (st_shares_table st2) share_item,
                      successful_shares := successful_shares st2 @
                        [\<lparr> se_shareId = share_id, se_email = recipient_email,
                           se_sharedAt = timestamp, se_expiresAt = rq_expiresAt rq,
                           se_status = ''active'' \<rparr>] \<rparr>))"

fun share_loop ::
  "env \<Rightarrow> user_item list \<Rightarrow> file_item \<Rightarrow> string \<Rightarrow> string \<Rightarrow> string \<Rightarrow> share_request \<Rightarrow> nat
     \<Rightarrow> recipient list \<Rightarrow> share_loop_state \<Rightarrow> (exn \<times> share_item list) + share_loop_state" where
  "share_loop env users_table file_item file_id user_id user_email rq i [] st = Inr st"
| "share_loop env users_table file_item file_id user_id user_email rq i (recipient # rest) st =
     (case process_recipient env users_table file_item file_id user_id user_email rq i recipient st of
        Inl raised \<Rightarrow> Inl raised
      | Inr st' \<Rightarrow>
          share_loop env users_table file_item file_id user_id user_email rq (Suc i) rest st')"

definition handle_share_file ::
  "env \<Rightarrow> file_item list \<Rightarrow> user_item list \<Rightarrow> share_item list \<Rightarrow> string option
     \<Rightarrow> share_request \<Rightarrow> string \<Rightarrow> string \<Rightarrow> share_file_body response \<times> share_item list" where
  "handle_share_file env files_table users_table shares_table file_id rq user_id user_email =
     (case file_id of
        None \<Rightarrow> (bad_request ''File ID is required'', shares_table)
      | Some fid \<Rightarrow>
          if fid = [] then (bad_request ''File ID is required'', shares_table)
          else if rq_recipients rq = []
          then (bad_request ''At least one recipient is required'', shares_table)
          else if 50 < length (rq_recipients rq)
          then (bad_request ''Cannot share with more than 50 users at once'', shares_table)
          else if file_query_raises env
          then (Failure 500 ''Database Error'' ''Failed to retrieve file'', shares_table)
          else (case query_FileIdIndex files_table fid of
            [] \<Rightarrow> (not_found ''File not found'', shares_table)
          | file_item # _ \<Rightarrow>
              if f_userId file_item \<noteq> user_id
              then (forbidden ''You can only share files you own'', shares_table)
              else (case f_status file_item of
                None \<Rightarrow> (internal_error KeyError, shares_table)
              | Some status \<Rightarrow>
                  if status \<noteq> ''active''
                  then (bad_request ''Cannot share inactive file'', shares_table)
                  else
                    (case share_loop env users_table file_item fid user_id user_email rq 0
                            (rq_recipients rq)
                            \<lparr> st_shares_table = shares_table, successful_shares = [],
                              failed_shares = [], uuids_drawn = 0 \<rparr> of
                       Inl (e, shares_table') \<Rightarrow> (internal_error e, shares_table')
                     | Inr st \<Rightarrow>
                         (Success 200
                            \<lparr> sf_shared = successful_shares st,
                              sf_failed = failed_shares st,
                              sf_totalShared = int (length (successful_shares st)),
                              sf_totalFailed = int (length (failed_shares st)) \<rparr>,
                          st_shares_table st)))))"

subsection \<open>Paginated queries\<close>

text \<open>
  The \<^verbatim>\<open>nextToken\<close> of a request is a string. The handlers pass it to
  \<^verbatim>\<open>json.loads\<close> and hand the result to the store as \<^verbatim>\<open>ExclusiveStartKey\<close>, so the
  model keeps of the string what the two make of it: \<open>Not_json\<close> when
  \<^verbatim>\<open>json.loads\<close> raises \<^verbatim>\<open>JSONDecodeError\<close>; \<open>Too_deep\<close> when it raises
  \<^verbatim>\<open>RecursionError\<close>, as it does on brackets nested deeper than the interpreter's
  recursion limit (a thousand \<^verbatim>\<open>[\<close>); \<open>Json (Key_json k)\<close> when it is the
  JSON of a key \<open>k\<close> of the queried index, as the store wrote it in
  \<^verbatim>\<open>LastEvaluatedKey\<close>; \<open>Json Other_json\<close> for every other JSON value (a number, a
  list, \<^verbatim>\<open>null\<close>, an object with other attributes). An absent or empty token is
  \<open>None\<close>.
\<close>

datatype 'k json = Key_json 'k | Other_json

datatype 'k token = Not_json | Too_deep | Json "'k json"

text \<open>
  \<^verbatim>\<open>int(query_params.get("limit", default))\<close>: the parameter is absent, a decimal, or a
  string that \<^verbatim>\<open>int\<close> rejects with \<^verbatim>\<open>ValueError\<close>.
\<close>

datatype int_param = No_param | Int_param int | Bad_param

definition read_limit :: "int_param \<Rightarrow> int \<Rightarrow> exn + int" where
  "read_limit p dflt =
     (case p of
        No_param \<Rightarrow> Inr (min dflt 100)
      | Int_param n \<Rightarrow> Inr (min n 100)
      | Bad_param \<Rightarrow> Inl ValueError)"

text \<open>
  One page of a query of the store, over the items \<open>items\<close> that match the key
  condition, in index order. The store reads at most \<^verbatim>\<open>Limit\<close> items, starting after
  the item whose key is \<^verbatim>\<open>ExclusiveStartKey\<close>, and returns as \<^verbatim>\<open>LastEvaluatedKey\<close> the
  key of the last item read when the limit stopped it. It rejects a \<^verbatim>\<open>Limit\<close> below
  1 and a start key that is not a key of the index with an exception
  (\<^verbatim>\<open>ParamValidationError\<close> from the client library, or a \<^verbatim>\<open>ClientError\<close> from the
  service). A \<^verbatim>\<open>FilterExpression\<close> is applied to the items read, after the limit.
\<close>

definition query_page ::
  "('a \<Rightarrow> 'k) \<Rightarrow> ('a \<Rightarrow> bool) \<Rightarrow> 'a list \<Rightarrow> int \<Rightarrow> 'k json option
     \<Rightarrow> exn + ('a list \<times> 'k option)" where
  "query_page key_of flt items limit start =
     (if limit < 1 then Inl ParamValidationError
      else case start of
        Some Other_json \<Rightarrow> Inl ParamValidationError
      | _ \<Rightarrow>
        let remaining = (case start of
                Some (Key_json k) \<Rightarrow> tl (dropWhile (\<lambda>x. key_of x \<noteq> k) items)
              | _ \<Rightarrow> items);
            scanned = take (nat limit) remaining
        in Inr (filter flt scanned,
                if nat limit \<le> length remaining then Some (key_of (last scanned)) else None))"

text \<open>
  \<^verbatim>\<open>
  if next_token:
      try:
          query_params["ExclusiveStartKey"] = json.loads(next_token)
      except json.JSONDecodeError:
          logger.warning(...)
  \<close>
  The value of \<^verbatim>\<open>ExclusiveStartKey\<close> in the parameters of the query, \<open>None\<close> when the
  parameters have none. Of the exceptions of \<^verbatim>\<open>json.loads\<close> only
  \<^verbatim>\<open>JSONDecodeError\<close> is caught here; a \<^verbatim>\<open>RecursionError\<close> leaves the handler.
\<close>

definition exclusive_start_key :: "'k token option \<Rightarrow> exn + 'k json option" where
  "exclusive_start_key next_token =
     (case next_token of
        None \<Rightarrow> Inr None
      | Some Not_json \<Rightarrow> Inr None
      | Some Too_deep \<Rightarrow> Inl RecursionError
      | Some (Json v) \<Rightarrow> Inr (Some v))"

subsection \<open>handle\_shared\_with\_me\<close>

record shared_file =
  swm_fileId :: string
  swm_filename :: string
  swm_fileSize :: int
  swm_contentType :: string
  swm_sharedBy :: string
  swm_sharedAt :: int
  swm_permissions :: string
  swm_expiresAt :: "iso_text option"
  swm_message :: "string option"

record shared_with_me_body =
  swm_files :: "shared_file list"
  swm_total :: int
  swm_nextToken :: "(string \<times> string) option"

definition shared_file_of :: "share_item \<Rightarrow> file_item \<Rightarrow> exn + shared_file" where
  "shared_file_of share file_item =
     (case (f_filename file_item, f_fileSize file_item, f_contentType file_item) of
        (Some filename, Some file_size, Some content_type) \<Rightarrow>
          Inr \<lparr> swm_fileId = f_fileId file_item, swm_filename = filename,
                swm_fileSize = file_size, swm_contentType = content_type,
                swm_sharedBy = sh_ownerId share, swm_sharedAt = sh_sharedAt share,
                swm_permissions = sh_permissions share,
                swm_expiresAt = sh_expiresAt share, swm_message = sh_message share \<rparr>
      | _ \<Rightarrow> Inl KeyError)"

text \<open>
  The loop \<^verbatim>\<open>for share in shares\<close> of \<^verbatim>\<open>handle_shared_with_me\<close>. A
  \<^verbatim>\<open>ClientError\<close> of the query for the file (\<open>files_query_raises\<close>, by file id) skips
  the share; any other exception leaves the loop and the handler.
\<close>

fun shared_files_loop ::
  "(string \<Rightarrow> bool) \<Rightarrow> file_item list \<Rightarrow> int \<Rightarrow> share_item list \<Rightarrow> shared_file list
     \<Rightarrow> exn + shared_file list" where
  "shared_files_loop files_query_raises files_table clock [] shared_files = Inr shared_files"
| "shared_files_loop files_query_raises files_table clock (share # rest) shared_files =
     (if sh_status share \<noteq> ''active''
      then shared_files_loop files_query_raises files_table clock rest shared_files
      else case (case sh_expiresAt share of None \<Rightarrow> Inr False | Some s \<Rightarrow> now_after clock s) of
        Inl e \<Rightarrow> Inl e
      | Inr True \<Rightarrow> shared_files_loop files_query_raises files_table clock rest shared_files
      | Inr False \<Rightarrow>
          if files_query_raises (sh_fileId share)
          then shared_files_loop files_query_raises files_table clock rest shared_files
          else
          (case query_FileIdIndex files_table (sh_fileId share) of
             [] \<Rightarrow> shared_files_loop files_query_raises files_table clock rest shared_files
           | file_item # _ \<Rightarrow>
               (case shared_file_of share file_item of
                  Inl e \<Rightarrow> Inl e
                | Inr shared_file \<Rightarrow>
                    shared_files_loop files_query_raises files_table clock rest
                      (shared_files @ [shared_file]))))"

definition shared_index_key :: "share_item \<Rightarrow> string \<times> string" where
  "shared_index_key s = (sh_sharedWithUserId s, sh_fileId s)"

definition handle_shared_with_me ::
  "(string \<Rightarrow> bool) \<Rightarrow> file_item list \<Rightarrow> share_item list \<Rightarrow> int \<Rightarrow> int_param
     \<Rightarrow> (string \<times> string) token option \<Rightarrow> string \<Rightarrow> shared_with_me_body response" where
  "handle_shared_with_me files_query_raises files_table shares_table clock limit_param
       next_token user_id =
     (case read_limit limit_param 20 of
        Inl e \<Rightarrow> internal_error e
      | Inr limit \<Rightarrow>
      (case exclusive_start_key next_token of
        Inl e \<Rightarrow> internal_error e
      | Inr start \<Rightarrow>
          (case query_page shared_index_key (\<lambda>s. True)
                  (filter (\<lambda>s. sh_sharedWithUserId s = user_id) shares_table)
                  limit start of
             Inl e \<Rightarrow> internal_error e
           | Inr (shares, last_key) \<Rightarrow>
               (case shared_files_loop files_query_raises files_table clock shares [] of
                  Inl e \<Rightarrow> internal_error e
                | Inr shared_files \<Rightarrow>
                    Success 200
                      \<lparr> swm_files = shared_files,
                        swm_total = int (length shared_files),
                        swm_nextToken = last_key \<rparr>))))"

section \<open>submit\_assignment.py\<close>

text \<open>
  Grades are exact decimals (\<^verbatim>\<open>Decimal(str(grade))\<close>), modelled as rationals. The
  submissions table has the primary key
  (assignmentId, \<^verbatim>\<open>studentId#submissionNumber\<close>), as the key of the update in
  \<^verbatim>\<open>handle_grade_submission\<close> shows; the sort key is determined by the student and the
  number of the submission, and the model compares the two instead of the string.
\<close>

record assignment_item =
  as_courseId :: string
  as_assignmentId :: string
  as_instructorId :: string
  as_title :: string
  as_status :: string
  as_dueDate :: iso_text
  as_allowedFileTypes :: "string list option"
  as_maxFileSize :: "int option"
  as_maxSubmissions :: "int option"
  as_submissionCount :: "int option"

record submission_item =
  sub_submissionId :: string
  sub_assignmentId :: string
  sub_studentId :: string
  sub_studentEmail :: string
  sub_studentName :: string
  sub_fileId :: string
  sub_filename :: string
  sub_fileSize :: int
  sub_submittedAt :: int
  sub_submissionNumber :: int
  sub_status :: string
  sub_isLate :: bool
  sub_dueDate :: iso_text
  sub_comments :: "string option"
  sub_grade :: "rat option"
  sub_maxGrade :: "rat option"
  sub_feedback :: "string option"
  sub_feedbackFileId :: "string option"
  sub_gradedAt :: "int option"
  sub_gradedBy :: "string option"
  sub_gradedByName :: "string option"

definition query_AssignmentIdIndex :: "assignment_item list \<Rightarrow> string \<Rightarrow> assignment_item list" where
  "query_AssignmentIdIndex assignments_table assignment_id =
     filter (\<lambda>a. as_assignmentId a = assignment_id) assignments_table"

definition query_SubmissionIdIndex :: "submission_item list \<Rightarrow> string \<Rightarrow> submission_item list" where
  "query_SubmissionIdIndex submissions_table submission_id =
     filter (\<lambda>s. sub_submissionId s = submission_id) submissions_table"

text \<open>\<^verbatim>\<open>files_table.get_item(Key={"userId": user_id, "fileId": file_id})\<close>\<close>

definition get_file :: "file_item list \<Rightarrow> string \<Rightarrow> string \<Rightarrow> file_item option" where
  "get_file files_table user_id file_id =
     (case filter (\<lambda>f. f_userId f = user_id \<and> f_fileId f = file_id) files_table of
        [] \<Rightarrow> None
      | f # _ \<Rightarrow> Some f)"

text \<open>
  \<^verbatim>\<open>
  submissions_table.query(
      KeyConditionExpression=Key("assignmentId").eq(assignment_id),
      FilterExpression=Attr("studentId").eq(user_id)).get("Items", [])
  \<close>
\<close>

definition existing_submissions ::
  "submission_item list \<Rightarrow> string \<Rightarrow> string \<Rightarrow> submission_item list" where
  "existing_submissions submissions_table assignment_id user_id =
     filter (\<lambda>s. sub_assignmentId s = assignment_id \<and> sub_studentId s = user_id)
       submissions_table"

definition submission_key :: "submission_item \<Rightarrow> string \<times> string \<times> int" where
  "submission_key s = (sub_assignmentId s, sub_studentId s, sub_submissionNumber s)"

text \<open>
  \<^verbatim>\<open>submissions_table.put_item(Item=item)\<close> writes the item under its primary key, and
  the store rejects an item that lacks an attribute of the key (a \<^verbatim>\<open>ClientError\<close>,
  \<^verbatim>\<open>ValidationException\<close>). \<open>has_sort_key\<close> says whether the item carries the attribute
  \<^verbatim>\<open>studentId#submissionNumber\<close>.
\<close>

definition put_submission ::
  "submission_item list \<Rightarrow> bool \<Rightarrow> submission_item \<Rightarrow> exn + submission_item list" where
  "put_submission submissions_table has_sort_key item =
     (if \<not> has_sort_key then Inl ClientError
      else Inr (filter (\<lambda>s. submission_key s \<noteq> submission_key item) submissions_table @ [item]))"

text \<open>
  \<^verbatim>\<open>
  assignments_table.update_item(
      Key={"courseId": assignment["courseId"], "assignmentId": assignment_id},
      UpdateExpression="SET submissionCount = submissionCount + :inc", ...)
  \<close>
  The store rejects the update (a \<^verbatim>\<open>ClientError\<close>) when the item has no
  \<^verbatim>\<open>submissionCount\<close> to add to.
\<close>

definition increment_submissionCount ::
  "assignment_item list \<Rightarrow> string \<times> string \<Rightarrow> exn + assignment_item list" where
  "increment_submissionCount assignments_table key =
     (case filter (\<lambda>a. (as_courseId a, as_assignmentId a) = key) assignments_table of
        [] \<Rightarrow> Inl ClientError
      | item # _ \<Rightarrow>
          (case as_submissionCount item of
             None \<Rightarrow> Inl ClientError
           | Some n \<Rightarrow>
               Inr (map (\<lambda>a. if (as_courseId a, as_assignmentId a) = key
                                then a\<lparr>as_submissionCount := Some (n + 1)\<rparr> else a)
                      assignments_table)))"

subsection \<open>handle\_submit\_assignment\<close>

record submit_body =
  sb_submissionId :: string
  sb_assignmentId :: string
  sb_fileId :: string
  sb_filename :: string
  sb_submittedAt :: int
  sb_submissionNumber :: int
  sb_status :: string
  sb_isLate :: bool
  sb_comments :: string

text \<open>
  The handler reads the UTC clock twice: \<open>now\<close> for the deadline check, and
  \<open>timestamp\<close> when it builds the record. \<open>submission_id\<close> is the value of
  \<^verbatim>\<open>str(uuid.uuid4())\<close>. It returns the response and the two tables it writes. The
  notification to the instructor is best effort and reads only attributes that every
  assignment has.

  The item it hands to \<^verbatim>\<open>put_item\<close> is the dict \<^verbatim>\<open>submission_item\<close> with the
  attributes from \<^verbatim>\<open>submissionId\<close> to \<^verbatim>\<open>dueDate\<close> and \<^verbatim>\<open>comments\<close>; none of them is
  \<^verbatim>\<open>studentId#submissionNumber\<close>. An exception of \<^verbatim>\<open>put_item\<close> or of the update of
  the counter reaches the outermost \<^verbatim>\<open>except Exception\<close>.
\<close>

definition handle_submit_assignment ::
  "file_item list \<Rightarrow> assignment_item list \<Rightarrow> submission_item list \<Rightarrow> int \<Rightarrow> int \<Rightarrow> string
     \<Rightarrow> string option \<Rightarrow> string option \<Rightarrow> string \<Rightarrow> string \<Rightarrow> string \<Rightarrow> string
     \<Rightarrow> submit_body response \<times> assignment_item list \<times> submission_item list" where
  "handle_submit_assignment files_table assignments_table submissions_table now timestamp
       submission_id assignment_id file_id comments user_id user_email user_name =
     (let unchanged = (\<lambda>r. (r, assignments_table, submissions_table)) in
      case assignment_id of
        None \<Rightarrow> unchanged (bad_request ''Assignment ID is required'')
      | Some aid \<Rightarrow>
      if aid = [] then unchanged (bad_request ''Assignment ID is required'')
      else case file_id of
        None \<Rightarrow> unchanged (bad_request ''File ID is required'')
      | Some fid \<Rightarrow>
      if fid = [] then unchanged (bad_request ''File ID is required'')
      else case query_AssignmentIdIndex assignments_table aid of
        [] \<Rightarrow> unchanged (not_found ''Assignment not found'')
      | assignment # _ \<Rightarrow>
      if as_status assignment \<noteq> ''active''
      then unchanged (bad_request ''Assignment is not active'')
      else case now_after now (as_dueDate assignment) of
        Inl e \<Rightarrow> unchanged (internal_error e)
      | Inr is_late \<Rightarrow>
      (case get_file files_table user_id fid of
        None \<Rightarrow> unchanged (not_found ''File not found or you don't have access'')
      | Some file_item \<Rightarrow>
      (case f_status file_item of
        None \<Rightarrow> unchanged (internal_error KeyError)
      | Some file_status \<Rightarrow>
      if file_status \<noteq> ''active''
      then unchanged (bad_request ''File is not active and cannot be submitted'')
      else if as_allowedFileTypes assignment \<noteq> None \<and> f_contentType file_item = None
      then unchanged (internal_error KeyError)
      else if (case (as_allowedFileTypes assignment, f_contentType file_item) of
                 (Some allowed, Some content_type) \<Rightarrow> content_type \<notin> set allowed
               | _ \<Rightarrow> False)
      then unchanged (bad_request ''File type is not allowed for this assignment'')
      else if as_maxFileSize assignment \<noteq> None \<and> f_fileSize file_item = None
      then unchanged (internal_error KeyError)
      else if (case (as_maxFileSize assignment, f_fileSize file_item) of
                 (Some max_size, Some file_size) \<Rightarrow> max_size < file_size
               | _ \<Rightarrow> False)
      then unchanged (Failure 400 ''Payload Too Large'' ''File size exceeds maximum allowed size'')
      else
        let submission_count =
              int (length (existing_submissions submissions_table aid user_id));
            max_submissions = (case as_maxSubmissions assignment of None \<Rightarrow> 1 | Some m \<Rightarrow> m)
        in
        if max_submissions \<le> submission_count
        then unchanged (forbidden ''Maximum submission limit reached'')
        else
          (case (f_filename file_item, f_fileSize file_item) of
             (Some filename, Some file_size) \<Rightarrow>
               let submission_number = submission_count + 1;
                   submission_item =
                     \<lparr> sub_submissionId = submission_id, sub_assignmentId = aid,
                       sub_studentId = user_id, sub_studentEmail = user_email,
                       sub_studentName = user_name, sub_fileId = fid,
                       sub_filename = filename, sub_fileSize = file_size,
                       sub_submittedAt = timestamp,
                       sub_submissionNumber = submission_number,
                       sub_status = ''submitted'', sub_isLate = is_late,
                       sub_dueDate = as_dueDate assignment,
                       sub_comments = (if comments = [] then None
                                       else Some (take 1000 comments)),
                       sub_grade = None, sub_maxGrade = None, sub_feedback = None,
                       sub_feedbackFileId = None, sub_gradedAt = None,
                       sub_gradedBy = None, sub_gradedByName = None \<rparr>
               in
               (case put_submission submissions_table False submission_item of
                  Inl e \<Rightarrow> unchanged (internal_error e)
                | Inr submissions_table' \<Rightarrow>
               (case increment_submissionCount assignments_table
                       (as_courseId assignment, aid) of
                  Inl e \<Rightarrow> (internal_error e, assignments_table, submissions_table')
                | Inr assignments_table' \<Rightarrow>
                    (Success 201
                       \<lparr> sb_submissionId = submission_id, sb_assignmentId = aid,
                         sb_fileId = fid, sb_filename = filename,
                         sb_submittedAt = timestamp,
                         sb_submissionNumber = submission_number,
                         sb_status = ''submitted'', sb_isLate = is_late,
                         sb_comments = comments \<rparr>,
                     assignments_table', submissions_table')))
           | _ \<Rightarrow> unchanged (internal_error KeyError)))))"

subsection \<open>handle\_grade\_submission\<close>

text \<open>\<^verbatim>\<open>sub in s\<close> on strings: \<open>sub\<close> occurs in \<open>s\<close> as a contiguous run.\<close>

primrec contains :: "string \<Rightarrow> string \<Rightarrow> bool" where
  "contains [] sub = (sub = [])"
| "contains (c # cs) sub = (take (length sub) (c # cs) = sub \<or> contains cs sub)"

text \<open>
  \<^verbatim>\<open>"instructor" not in user_role.lower() and "admin" not in user_role.lower()\<close>
\<close>

definition not_instructor :: "string \<Rightarrow> bool" where
  "not_instructor user_role =
     (\<not> contains (lower user_role) ''instructor'' \<and> \<not> contains (lower user_role) ''admin'')"

record grade_request =
  gr_grade :: "rat option"
  gr_maxGrade :: "rat option"
  gr_feedback :: string
  gr_feedbackFileId :: "string option"

record grade_body =
  gb_submissionId :: string
  gb_grade :: rat
  gb_maxGrade :: rat
  gb_feedback :: string
  gb_gradedAt :: int
  gb_gradedBy :: string
  gb_gradedByName :: string
  gb_status :: string

text \<open>
  The \<^verbatim>\<open>SET\<close> expression of the update, applied to the item under the key.
\<close>

definition set_grade ::
  "grade_request \<Rightarrow> rat \<Rightarrow> int \<Rightarrow> string \<Rightarrow> string \<Rightarrow> submission_item \<Rightarrow> submission_item" where
  "set_grade rq grade timestamp user_id user_name s =
     (let graded = s\<lparr> sub_grade := Some grade,
                      sub_maxGrade := Some (case gr_maxGrade rq of None \<Rightarrow> 100 | Some m \<Rightarrow> m),
                      sub_feedback := Some (take 2000 (gr_feedback rq)),
                      sub_gradedAt := Some timestamp,
                      sub_gradedBy := Some user_id,
                      sub_gradedByName := Some user_name,
                      sub_status := ''graded'' \<rparr>
      in if py_not (gr_feedbackFileId rq) then graded
         else graded\<lparr>sub_feedbackFileId := gr_feedbackFileId rq\<rparr>)"

definition update_submission_grade ::
  "submission_item list \<Rightarrow> string \<times> string \<times> int \<Rightarrow> (submission_item \<Rightarrow> submission_item)
     \<Rightarrow> submission_item list" where
  "update_submission_grade submissions_table key upd =
     map (\<lambda>s. if submission_key s = key then upd s else s) submissions_table"

definition handle_grade_submission ::
  "assignment_item list \<Rightarrow> submission_item list \<Rightarrow> int \<Rightarrow> string option \<Rightarrow> string option
     \<Rightarrow> grade_request \<Rightarrow> string \<Rightarrow> string \<Rightarrow> string
     \<Rightarrow> grade_body response \<times> submission_item list" where
  "handle_grade_submission assignments_table submissions_table timestamp assignment_id
       submission_id rq user_id user_role user_name =
     (let unchanged = (\<lambda>r. (r, submissions_table)) in
      if not_instructor user_role
      then unchanged (forbidden ''Only instructors can grade submissions'')
      else case (assignment_id, submission_id) of
        (Some aid, Some sid) \<Rightarrow>
          if aid = [] \<or> sid = []
          then unchanged (bad_request ''Assignment ID and Submission ID are required'')
          else (case gr_grade rq of
            None \<Rightarrow> unchanged (bad_request ''Grade is required'')
          | Some grade \<Rightarrow>
          (case query_AssignmentIdIndex assignments_table aid of
            [] \<Rightarrow> unchanged (not_found ''Assignment not found'')
          | assignment # _ \<Rightarrow>
          if as_instructorId assignment \<noteq> user_id
          then unchanged (forbidden ''You can only grade submissions for your own assignments'')
          else (case query_SubmissionIdIndex submissions_table sid of
            [] \<Rightarrow> unchanged (not_found ''Submission not found'')
          | submission # _ \<Rightarrow>
          if sub_assignmentId submission \<noteq> aid
          then unchanged (bad_request ''Submission does not belong to this assignment'')
          else
            (Success 200
               \<lparr> gb_submissionId = sid, gb_grade = grade,
                 gb_maxGrade = (case gr_maxGrade rq of None \<Rightarrow> 100 | Some m \<Rightarrow> m),
                 gb_feedback = gr_feedback rq, gb_gradedAt = timestamp,
                 gb_gradedBy = user_id, gb_gradedByName = user_name,
                 gb_status = ''graded'' \<rparr>,
             update_submission_grade submissions_table
               (aid, sub_studentId submission, sub_submissionNumber submission)
               (set_grade rq grade timestamp user_id user_name)))))
      | _ \<Rightarrow> unchanged (bad_request ''Assignment ID and Submission ID are required''))"

subsection \<open>handle\_list\_submissions\<close>

record formatted_submission =
  fm_submissionId :: string
  fm_studentId :: string
  fm_studentEmail :: string
  fm_studentName :: string
  fm_fileId :: string
  fm_filename :: string
  fm_fileSize :: int
  fm_submittedAt :: int
  fm_submissionNumber :: int
  fm_status :: string
  fm_isLate :: bool
  fm_comments :: "string option"
  fm_grade :: "rat option"
  fm_maxGrade :: "rat option"
  fm_feedback :: "string option"
  fm_feedbackFileId :: "string option"
  fm_gradedAt :: "int option"
  fm_gradedBy :: "(string option \<times> string option) option"

definition format_submission :: "submission_item \<Rightarrow> formatted_submission" where
  "format_submission submission =
     \<lparr> fm_submissionId = sub_submissionId submission,
       fm_studentId = sub_studentId submission,
       fm_studentEmail = sub_studentEmail submission,
       fm_studentName = sub_studentName submission,
       fm_fileId = sub_fileId submission,
       fm_filename = sub_filename submission,
       fm_fileSize = sub_fileSize submission,
       fm_submittedAt = sub_submittedAt submission,
       fm_submissionNumber = sub_submissionNumber submission,
       fm_status = sub_status submission,
       fm_isLate = sub_isLate submission,
       fm_comments = sub_comments submission,
       fm_grade = sub_grade submission,
       fm_maxGrade = (case sub_grade submission of
                        None \<Rightarrow> None
                      | Some g \<Rightarrow> Some (case sub_maxGrade submission of None \<Rightarrow> 100 | Some m \<Rightarrow> m)),
       fm_feedback = sub_feedback submission,
       fm_feedbackFileId = sub_feedbackFileId submission,
       fm_gradedAt = sub_gradedAt submission,
       fm_gradedBy = (case sub_gradedAt submission of
                        None \<Rightarrow> None
                      | Some t \<Rightarrow> Some (sub_gradedBy submission, sub_gradedByName submission)) \<rparr>"

record statistics =
  totalSubmissions :: int
  onTime :: int
  late :: int
  graded :: int
  pending :: int

record list_submissions_body =
  lsub_assignmentId :: string
  lsub_assignmentTitle :: string
  lsub_submissions :: "formatted_submission list"
  lsub_total :: int
  lsub_statistics :: statistics
  lsub_nextToken :: "(string \<times> string \<times> int) option"

definition handle_list_submissions ::
  "assignment_item list \<Rightarrow> submission_item list \<Rightarrow> string option \<Rightarrow> string option
     \<Rightarrow> int_param \<Rightarrow> (string \<times> string \<times> int) token option \<Rightarrow> string \<Rightarrow> string
     \<Rightarrow> list_submissions_body response" where
  "handle_list_submissions assignments_table submissions_table assignment_id status_filter
       limit_param next_token user_id user_role =
     (if not_instructor user_role
      then forbidden ''Only instructors can view all submissions''
      else case assignment_id of
        None \<Rightarrow> bad_request ''Assignment ID is required''
      | Some aid \<Rightarrow>
      if aid = [] then bad_request ''Assignment ID is required''
      else case read_limit limit_param 50 of
        Inl e \<Rightarrow> internal_error e
      | Inr limit \<Rightarrow>
      (case query_AssignmentIdIndex assignments_table aid of
        [] \<Rightarrow> not_found ''Assignment not found''
      | assignment # _ \<Rightarrow>
      if as_instructorId assignment \<noteq> user_id
      then forbidden ''You can only view submissions for your own assignments''
      else
        let all_submissions = filter (\<lambda>s. sub_assignmentId s = aid) submissions_table;
            flt = (case status_filter of
                     None \<Rightarrow> (\<lambda>s. True)
                   | Some st \<Rightarrow> if st = [] then (\<lambda>s. True) else (\<lambda>s. sub_status s = st))
        in
        (case exclusive_start_key next_token of
           Inl e \<Rightarrow> internal_error e
         | Inr start \<Rightarrow>
        (case query_page submission_key flt all_submissions limit start of
           Inl e \<Rightarrow> internal_error e
         | Inr (submissions, last_key) \<Rightarrow>
             Success 200
               \<lparr> lsub_assignmentId = aid,
                 lsub_assignmentTitle = as_title assignment,
                 lsub_submissions = map format_submission submissions,
                 lsub_total = int (length submissions),
                 lsub_statistics =
                   \<lparr> totalSubmissions = int (length all_submissions),
                     onTime = int (length (filter (\<lambda>s. \<not> sub_isLate s) all_submissions)),
                     late = int (length (filter sub_isLate all_submissions)),
                     graded = int (length (filter (\<lambda>s. sub_status s = ''graded'') all_submissions)),
                     pending = int (length (filter (\<lambda>s. sub_status s = ''submitted'') all_submissions)) \<rparr>,
                 lsub_nextToken = last_key \<rparr>))))"

section \<open>complete\_upload.py\<close>

text \<open>
  What the handler takes from outside the files table:
  \<^verbatim>\<open>s3_client.head_object(Bucket=S3_BUCKET, Key=s3_key)\<close>, which returns the object's
  length and ETag or raises a \<^verbatim>\<open>ClientError\<close>, with code 404 or another; and whether
  the store raises a \<^verbatim>\<open>ClientError\<close> in \<^verbatim>\<open>get_item\<close> and in \<^verbatim>\<open>update_item\<close>, for
  which the handler has \<^verbatim>\<open>except\<close> clauses of its own.
\<close>

datatype head_result = Head_object int string | Head_404 | Head_error

record upload_env =
  head_object :: "string \<Rightarrow> head_result"
  get_item_raises :: bool
  update_item_raises :: bool

record complete_request =
  cr_uploadSuccess :: bool
  cr_s3Key :: "string option"
  cr_checksum :: "string option"

datatype complete_body =
    Already_completed file_item
  | Upload_completed file_item
  | Marked_failed string

definition file_key :: "file_item \<Rightarrow> string \<times> string" where
  "file_key f = (f_userId f, f_fileId f)"

text \<open>
  \<^verbatim>\<open>handle_failed_upload\<close>. Its \<^verbatim>\<open>update_item\<close> has no condition: it sets the two
  attributes of the item under the key, and creates an item of the key and the two
  attributes when there is none. Every exception is answered with a 500.
\<close>

definition handle_failed_upload ::
  "upload_env \<Rightarrow> file_item list \<Rightarrow> int \<Rightarrow> string \<Rightarrow> string
     \<Rightarrow> complete_body response \<times> file_item list" where
  "handle_failed_upload env files_table timestamp user_id file_id =
     (if update_item_raises env
      then (Failure 500 ''Internal Server Error'' ''Failed to update upload status'', files_table)
      else
        (Success 200 (Marked_failed file_id),
         if \<exists>f \<in> set files_table. file_key f = (user_id, file_id)
         then map (\<lambda>f. if file_key f = (user_id, file_id)
                        then f\<lparr>f_status := Some ''failed'', f_lastModified := Some timestamp\<rparr>
                        else f)
                files_table
         else files_table @
           [\<lparr> f_userId = user_id, f_fileId = file_id, f_filename = None, f_fileSize = None,
              f_contentType = None, f_status = Some ''failed'',
              f_s3Key = None, f_uploadedAt = None,
              f_lastModified = Some timestamp, f_checksum = None,
              f_virusScanStatus = None \<rparr>]))"

text \<open>
  The update of the success path: status, modification time, the size when it differs
  from the stored one, the checksum of the request or else the ETag, and the scan status.
  Its condition \<^verbatim>\<open>attribute_exists(fileId)\<close> holds, the handler having just read the
  item under the key.
\<close>

definition mark_active :: "int \<Rightarrow> int \<Rightarrow> string \<Rightarrow> string option \<Rightarrow> file_item \<Rightarrow> file_item" where
  "mark_active timestamp actual_file_size s3_etag checksum f =
     f\<lparr> f_status := Some ''active'',
        f_lastModified := Some timestamp,
        f_fileSize := (if actual_file_size \<noteq> (case f_fileSize f of None \<Rightarrow> 0 | Some n \<Rightarrow> n)
                       then Some actual_file_size else f_fileSize f),
        f_checksum := (if \<not> py_not checksum then checksum
                       else if s3_etag \<noteq> [] then Some s3_etag else f_checksum f),
        f_virusScanStatus := Some ''pending'' \<rparr>"

text \<open>
  \<^verbatim>\<open>format_file_response\<close> reads \<^verbatim>\<open>filename\<close>, \<^verbatim>\<open>fileSize\<close>, \<^verbatim>\<open>contentType\<close>,
  \<^verbatim>\<open>uploadedAt\<close>, \<^verbatim>\<open>status\<close> and \<^verbatim>\<open>s3Key\<close> with \<^verbatim>\<open>[...]\<close>: a \<^verbatim>\<open>KeyError\<close> when one
  is missing, which the handler answers with 400 \<^verbatim>\<open>Missing required field\<close>. The
  response shows the item.
\<close>

definition format_file_response :: "file_item \<Rightarrow> exn + file_item" where
  "format_file_response f =
     (if f_filename f = None \<or> f_fileSize f = None \<or> f_contentType f = None \<or>
         f_uploadedAt f = None \<or> f_status f = None \<or> f_s3Key f = None
      then Inl KeyError else Inr f)"

text \<open>\<^verbatim>\<open>lambda_handler\<close> of complete\_upload.py.\<close>

definition complete_upload ::
  "upload_env \<Rightarrow> file_item list \<Rightarrow> int \<Rightarrow> string option \<Rightarrow> complete_request
     \<Rightarrow> string \<Rightarrow> complete_body response \<times> file_item list" where
  "complete_upload env files_table timestamp file_id rq user_id =
     (let unchanged = (\<lambda>r. (r, files_table)) in
      case file_id of
        None \<Rightarrow> unchanged (bad_request ''File ID is required'')
      | Some fid \<Rightarrow>
      if fid = [] then unchanged (bad_request ''File ID is required'')
      else if \<not> cr_uploadSuccess rq
      then handle_failed_upload env files_table timestamp user_id fid
      else case cr_s3Key rq of
        None \<Rightarrow> unchanged (bad_request ''S3 key is required'')
      | Some s3_key \<Rightarrow>
      if s3_key = [] then unchanged (bad_request ''S3 key is required'')
      else if get_item_raises env
      then unchanged (Failure 500 ''Database Error'' ''Failed to retrieve file metadata'')
      else case get_file files_table user_id fid of
        None \<Rightarrow> unchanged (not_found ''File not found'')
      | Some file_item \<Rightarrow>
      if f_userId file_item \<noteq> user_id
      then unchanged (forbidden ''File does not belong to user'')
      else if f_status file_item = Some ''active''
      then (case format_file_response file_item of
              Inl e \<Rightarrow> unchanged (bad_request ''Missing required field'')
            | Inr formatted \<Rightarrow> unchanged (Success 200 (Already_completed formatted)))
      else case head_object env s3_key of
        Head_404 \<Rightarrow> unchanged (not_found ''File not found in S3. Upload may have failed.'')
      | Head_error \<Rightarrow> unchanged (Failure 500 ''S3 Error'' ''Failed to verify file in S3'')
      | Head_object actual_file_size s3_etag \<Rightarrow>
          if update_item_raises env
          then unchanged (Failure 500 ''Database Error'' ''Failed to update file status'')
          else
          let files_table' =
                map (\<lambda>f. if file_key f = (user_id, fid)
                         then mark_active timestamp actual_file_size s3_etag (cr_checksum rq) f
                         else f)
                  files_table
          in (case get_file files_table' user_id fid of
                None \<Rightarrow> (bad_request ''Missing required field'', files_table')
              | Some updated_file \<Rightarrow>
                  (case format_file_response updated_file of
                     Inl e \<Rightarrow> (bad_request ''Missing required field'', files_table')
                   | Inr formatted \<Rightarrow> (Success 200 (Upload_completed formatted), files_table'))))"

section \<open>Definitions for the properties\<close>

text \<open>
  The shares table as it was before any revocation: every share \<^verbatim>\<open>active\<close>, none with
  a revocation time.
\<close>

definition never_revoked :: "share_item list \<Rightarrow> share_item list" where
  "never_revoked shares_table =
     map (\<lambda>s. s\<lparr>sh_status := ''active'', sh_revokedAt := None\<rparr>) shares_table"

text \<open>
  The record \<^verbatim>\<open>submission_item\<close> that \<^verbatim>\<open>handle_submit_assignment\<close> builds and hands to
  \<^verbatim>\<open>put_item\<close>, as a function of what it is built from.
\<close>

definition created_submission ::
  "string \<Rightarrow> string \<Rightarrow> string \<Rightarrow> string \<Rightarrow> string \<Rightarrow> string \<Rightarrow> string \<Rightarrow> int \<Rightarrow> int
     \<Rightarrow> int \<Rightarrow> bool \<Rightarrow> iso_text \<Rightarrow> string \<Rightarrow> submission_item" where
  "created_submission submission_id aid user_id user_email user_name fid filename file_size
       timestamp number is_late due_date comments =
     \<lparr> sub_submissionId = submission_id, sub_assignmentId = aid,
       sub_studentId = user_id, sub_studentEmail = user_email,
       sub_studentName = user_name, sub_fileId = fid,
       sub_filename = filename, sub_fileSize = file_size,
       sub_submittedAt = timestamp, sub_submissionNumber = number,
       sub_status = ''submitted'', sub_isLate = is_late,
       sub_dueDate = due_date,
       sub_comments = (if comments = [] then None else Some (take 1000 comments)),
       sub_grade = None, sub_maxGrade = None, sub_feedback = None,
       sub_feedbackFileId = None, sub_gradedAt = None,
       sub_gradedBy = None, sub_gradedByName = None \<rparr>"

text \<open>
  The words of the specification on expiry: the expiry timestamp, if set, is strictly in
  the future relative to the evaluation time (both as UTC instants; a naive timestamp is
  read as UTC).
\<close>

definition utc_instant :: "datetime \<Rightarrow> int" where
  "utc_instant d = wall d - (case tzinfo d of None \<Rightarrow> 0 | Some off \<Rightarrow> off)"

definition expires_strictly_after :: "int \<Rightarrow> share_item \<Rightarrow> bool" where
  "expires_strictly_after clock share =
     (case sh_expiresAt share of
        None \<Rightarrow> True
      | Some Not_iso \<Rightarrow> False
      | Some (Iso d) \<Rightarrow> clock < utc_instant d)"

text \<open>
  The words of claim C4 with the boundary included: the expiry timestamp, if set, is not
  before the evaluation time, both as UTC instants. A timestamp is written in UTC when it
  carries the designator \<^verbatim>\<open>Z\<close> or the offset \<^verbatim>\<open>+00:00\<close> (offset 0), or no offset.
\<close>

definition not_expired_at :: "int \<Rightarrow> iso_text option \<Rightarrow> bool" where
  "not_expired_at clock expires =
     (case expires of
        None \<Rightarrow> True
      | Some Not_iso \<Rightarrow> False
      | Some (Iso d) \<Rightarrow> clock \<le> utc_instant d)"

definition written_in_utc :: "datetime \<Rightarrow> bool" where
  "written_in_utc d = (tzinfo d = None \<or> tzinfo d = Some 0)"

definition expiry_in_utc :: "iso_text option \<Rightarrow> bool" where
  "expiry_in_utc expires =
     (case expires of
        Some (Iso d) \<Rightarrow> written_in_utc d
      | _ \<Rightarrow> True)"

section \<open>Example data\<close>

text \<open>
  Concrete tables and requests, used where a property is evaluated: a file \<^verbatim>\<open>f1\<close> of
  the user \<^verbatim>\<open>owner\<close> with shares of it, two registered users, an environment in which
  the store never raises and notifications are on; an assignment \<^verbatim>\<open>a1\<close> of the
  instructor \<^verbatim>\<open>prof\<close>, due at 100, that takes PDF files, and the student \<^verbatim>\<open>stu\<close> with
  a file to submit; an upload report for \<^verbatim>\<open>f1\<close>, whose object is in storage.
\<close>

definition example_file :: "string \<Rightarrow> file_item" where
  "example_file status =
     \<lparr> f_userId = ''owner'', f_fileId = ''f1'', f_filename = Some ''notes.pdf'',
       f_fileSize = Some 100, f_contentType = Some ''application/pdf'',
       f_status = Some status, f_s3Key = Some ''uploads/f1'', f_uploadedAt = Some 0,
       f_lastModified = Some 0, f_checksum = None,
       f_virusScanStatus = None \<rparr>"

definition example_share ::
  "string \<Rightarrow> string \<Rightarrow> string \<Rightarrow> iso_text option \<Rightarrow> share_item" where
  "example_share share_id grantee status expires =
     \<lparr> sh_shareId = share_id, sh_fileId = ''f1'', sh_ownerId = ''owner'',
       sh_sharedWithUserId = grantee, sh_sharedWithEmail = grantee @ ''@campus.edu'',
       sh_permissions = ''read'', sh_sharedAt = 0, sh_status = status,
       sh_accessCount = Some 0, sh_message = None, sh_expiresAt = expires,
       sh_lastAccessedAt = None, sh_revokedAt = None \<rparr>"

definition example_env :: env where
  "example_env =
     \<lparr> uuid4 = (\<lambda>n. replicate (Suc n) CHR ''u''), utc_clock = (\<lambda>i. 10 + int i),
       notifications = True, file_query_raises = False,
       user_lookup_raises = (\<lambda>i. False), share_lookup_raises = (\<lambda>i. False),
       put_item_raises = (\<lambda>i. False) \<rparr>"

definition example_users :: "user_item list" where
  "example_users = [\<lparr> u_userId = ''ann'', u_email = ''ann@campus.edu'' \<rparr>,
                    \<lparr> u_userId = ''bob'', u_email = ''bob@campus.edu'' \<rparr>]"

definition example_request :: share_request where
  "example_request =
     \<lparr> rq_recipients =
         [\<lparr> r_email = Some ''ann@campus.edu'', r_permissions = None \<rparr>,
          \<lparr> r_email = Some ''not-an-email'', r_permissions = None \<rparr>,
          \<lparr> r_email = Some ''bob@campus.edu'', r_permissions = Some ''write'' \<rparr>],
       rq_message = ''hello'', rq_expiresAt = None \<rparr>"

definition example_revoked_share :: share_item where
  "example_revoked_share = (example_share ''s2'' ''bob'' ''revoked'' None)\<lparr>sh_revokedAt := Some 3\<rparr>"

definition example_assignment :: "int option \<Rightarrow> assignment_item" where
  "example_assignment max_submissions =
     \<lparr> as_courseId = ''c1'', as_assignmentId = ''a1'', as_instructorId = ''prof'',
       as_title = ''Essay'', as_status = ''active'',
       as_dueDate = Iso (Datetime 100 (Some 0)),
       as_allowedFileTypes = Some [''application/pdf''], as_maxFileSize = Some 1000,
       as_maxSubmissions = max_submissions, as_submissionCount = Some 0 \<rparr>"

definition example_student_file :: file_item where
  "example_student_file =
     \<lparr> f_userId = ''stu'', f_fileId = ''f9'', f_filename = Some ''essay.pdf'',
       f_fileSize = Some 500, f_contentType = Some ''application/pdf'',
       f_status = Some ''active'', f_s3Key = Some ''uploads/f9'', f_uploadedAt = Some 0,
       f_lastModified = Some 0, f_checksum = None,
       f_virusScanStatus = None \<rparr>"

definition example_submit ::
  "assignment_item list \<Rightarrow> submission_item list \<Rightarrow> int \<Rightarrow> string
     \<Rightarrow> submit_body response \<times> assignment_item list \<times> submission_item list" where
  "example_submit assignments_table submissions_table now submission_id =
     handle_submit_assignment [example_student_file] assignments_table submissions_table
       now now submission_id (Some ''a1'') (Some ''f9'') [] ''stu'' ''stu@campus.edu'' ''Stu''"

definition example_record :: "string \<Rightarrow> int \<Rightarrow> int \<Rightarrow> bool \<Rightarrow> submission_item" where
  "example_record submission_id timestamp number is_late =
     created_submission submission_id ''a1'' ''stu'' ''stu@campus.edu'' ''Stu'' ''f9''
       ''essay.pdf'' 500 timestamp number is_late (Iso (Datetime 100 (Some 0))) []"

definition example_counted :: "int \<Rightarrow> assignment_item list" where
  "example_counted n = [(example_assignment (Some 2))\<lparr>as_submissionCount := Some n\<rparr>]"

definition example_grade_request :: "rat \<Rightarrow> string \<Rightarrow> grade_request" where
  "example_grade_request grade feedback =
     \<lparr> gr_grade = Some grade, gr_maxGrade = None, gr_feedback = feedback,
       gr_feedbackFileId = None \<rparr>"

definition example_graded :: submission_item where
  "example_graded =
     set_grade (example_grade_request 50 ''late work'') 50 200 ''prof'' ''Prof''
       (example_record ''x2'' 150 2 True)"

definition example_report :: "bool \<Rightarrow> complete_request" where
  "example_report upload_success =
     \<lparr> cr_uploadSuccess = upload_success, cr_s3Key = Some ''uploads/f1'', cr_checksum = None \<rparr>"

definition example_upload_env :: upload_env where
  "example_upload_env =
     \<lparr> head_object = (\<lambda>s3_key. if s3_key = ''uploads/f1'' then Head_object 100 ''etag''
                              else Head_404),
       get_item_raises = False, update_item_raises = False \<rparr>"

text \<open>
  The file item that two upload reports leave for a file id that was never registered: a
  failure report creates the item, a success report makes it \<^verbatim>\<open>active\<close>. It has no
  filename.
\<close>

definition example_unregistered_file :: file_item where
  "example_unregistered_file =
     \<lparr> f_userId = ''owner'', f_fileId = ''f1'', f_filename = None, f_fileSize = Some 100,
       f_contentType = None, f_status = Some ''active'', f_s3Key = None, f_uploadedAt = None,
       f_lastModified = Some 2, f_checksum = Some ''etag'',
       f_virusScanStatus = Some ''pending'' \<rparr>"

definition example_two_recipients :: share_request where
  "example_two_recipients =
     \<lparr> rq_recipients =
         [\<lparr> r_email = Some ''bob@campus.edu'', r_permissions = None \<rparr>,
          \<lparr> r_email = Some ''ann@campus.edu'', r_permissions = None \<rparr>],
       rq_message = [], rq_expiresAt = None \<rparr>"


section \<open>Properties\<close>

subsection \<open>Strings and timestamps\<close>

lemma lower_simps [simp]: "lower [] = []" "lower (c # cs) = lower_char c # lower cs"
  by (simp_all add: lower_def)

lemma now_after_Iso: "now_after clock (Iso expiry) = Inr (wall expiry < clock)"
  by (cases expiry) (simp add: now_after_def fromisoformat_def dt_gt_def replace_tzinfo_def
      utcnow_def split: option.split)

lemma now_after_Not_iso: "now_after clock Not_iso = Inl ValueError"
  by (simp add: now_after_def fromisoformat_def)

lemma active_shares_loop_listed:
  "active_shares_loop clock shares acc = Inr out \<Longrightarrow>
     out = acc @ map format_share (filter (listed clock) shares)"
proof (induction shares arbitrary: acc)
  case Nil
  then show ?case by simp
next
  case (Cons share rest)
  show ?case
  proof (cases "listed clock share")
    case True
    then have "active_shares_loop clock (share # rest) acc =
        active_shares_loop clock rest (acc @ [format_share share])"
      by (auto simp: listed_def now_after_Iso split: option.splits iso_text.splits)
    with Cons.prems Cons.IH [of "acc @ [format_share share]"] True show ?thesis
      by simp
  next
    case False
    show ?thesis
    proof (cases "sh_status share = ''active'' \<and> sh_expiresAt share = Some Not_iso")
      case True
      with Cons.prems show ?thesis by (simp add: now_after_Not_iso)
    next
      case notraise: False
      with False have "active_shares_loop clock (share # rest) acc =
          active_shares_loop clock rest acc"
        by (auto simp: listed_def now_after_Iso split: option.splits iso_text.splits)
      with Cons.prems Cons.IH [of acc] False show ?thesis
        by simp
    qed
  qed
qed

subsection \<open>Listing the shares of a file\<close>

text \<open>
  When \<^verbatim>\<open>handle_list_shares\<close> answers with a list, the list is the stored shares of the
  file that the loop keeps, in table order, and \<^verbatim>\<open>total\<close> is its length.
\<close>

lemma list_shares_kept:
  assumes "handle_list_shares files_table shares_table clock file_id user_id = Success code body"
  shows "file_id = Some (ls_fileId body) \<and>
         ls_shares body =
           map format_share
             (filter (listed clock) (query_shares_of_file shares_table (ls_fileId body))) \<and>
         ls_total body = int (length (ls_shares body))"
  using assms
  by (auto simp: handle_list_shares_def bad_request_def not_found_def forbidden_def
      internal_error_def dest!: active_shares_loop_listed
      split: option.splits if_splits list.splits sum.splits)

text \<open>
  For an expiry written in UTC the comparison of the loop is the comparison of the
  instants.
\<close>

lemma listed_utc:
  assumes "expiry_in_utc (sh_expiresAt share)"
  shows "listed clock share =
           (sh_status share = ''active'' \<and> not_expired_at clock (sh_expiresAt share))"
  using assms
  by (auto simp: listed_def expiry_in_utc_def written_in_utc_def not_expired_at_def
      utc_instant_def split: option.splits iso_text.splits)

lemma example_list_shares:
  "handle_list_shares [example_file ''active'']
     [example_share ''s1'' ''ann'' ''active'' None,
      example_share ''s2'' ''bob'' ''revoked'' None,
      example_share ''s3'' ''cy'' ''active'' (Some (Iso (Datetime 5 (Some 0)))),
      example_share ''s4'' ''dee'' ''active'' (Some (Iso (Datetime 20 (Some 0))))]
     10 (Some ''f1'') ''owner'' =
   Success 200
     \<lparr> ls_fileId = ''f1'', ls_filename = ''notes.pdf'',
       ls_shares =
         [format_share (example_share ''s1'' ''ann'' ''active'' None),
          format_share (example_share ''s4'' ''dee'' ''active'' (Some (Iso (Datetime 20 (Some 0)))))],
       ls_total = 2 \<rparr>"
  by (simp add: handle_list_shares_def query_FileIdIndex_def query_shares_of_file_def
      example_file_def example_share_def now_after_Iso)

text \<open>
  Claim C4, with the boundary as the code has it. When \<^verbatim>\<open>handle_list_shares\<close> answers
  with a list, \<^verbatim>\<open>total\<close> is the length of the list, and every entry of the list is a
  stored share of the file whose status is \<^verbatim>\<open>active\<close> and whose expiry, if set and
  written in UTC, is not before the evaluation time; so a revoked share and a share with
  a UTC expiry before the evaluation time are in neither the list nor the total. And every
  stored share of the file with status \<^verbatim>\<open>active\<close> and no expiry, or a UTC expiry not
  before the evaluation time, is in the list. Nothing is stated about a share whose
  expiry is written with another offset.
\<close>

theorem list_shares_returns_unexpired:
  assumes "handle_list_shares files_table shares_table clock file_id user_id = Success code body"
  shows "file_id = Some (ls_fileId body) \<and>
         ls_total body = int (length (ls_shares body)) \<and>
         (\<forall>e \<in> set (ls_shares body).
            (\<exists>s \<in> set (query_shares_of_file shares_table (ls_fileId body)). e = format_share s) \<and>
            fs_status e = ''active'' \<and>
            (expiry_in_utc (fs_expiresAt e) \<longrightarrow> not_expired_at clock (fs_expiresAt e))) \<and>
         (\<forall>s \<in> set (query_shares_of_file shares_table (ls_fileId body)).
            sh_status s = ''active'' \<and> expiry_in_utc (sh_expiresAt s) \<and>
            not_expired_at clock (sh_expiresAt s) \<longrightarrow>
              format_share s \<in> set (ls_shares body))"
proof -
  let ?S = "query_shares_of_file shares_table (ls_fileId body)"
  from list_shares_kept [OF assms]
  have fid: "file_id = Some (ls_fileId body)"
    and kept: "ls_shares body = map format_share (filter (listed clock) ?S)"
    and total: "ls_total body = int (length (ls_shares body))"
    by simp_all
  have only: "\<forall>e \<in> set (ls_shares body).
      (\<exists>s \<in> set ?S. e = format_share s) \<and> fs_status e = ''active'' \<and>
      (expiry_in_utc (fs_expiresAt e) \<longrightarrow> not_expired_at clock (fs_expiresAt e))"
  proof
    fix e assume "e \<in> set (ls_shares body)"
    with kept obtain s where s: "s \<in> set ?S" "listed clock s" "e = format_share s"
      by auto
    have same: "fs_status e = sh_status s" "fs_expiresAt e = sh_expiresAt s"
      using s(3) by (simp_all add: format_share_def)
    have "sh_status s = ''active''"
      using s(2) by (simp add: listed_def)
    moreover have "not_expired_at clock (sh_expiresAt s)" if "expiry_in_utc (sh_expiresAt s)"
      using listed_utc [OF that, of clock] s(2) by simp
    ultimately show "(\<exists>s \<in> set ?S. e = format_share s) \<and> fs_status e = ''active'' \<and>
        (expiry_in_utc (fs_expiresAt e) \<longrightarrow> not_expired_at clock (fs_expiresAt e))"
      using s(1,3) same by auto
  qed
  have every: "\<forall>s \<in> set ?S.
      sh_status s = ''active'' \<and> expiry_in_utc (sh_expiresAt s) \<and>
      not_expired_at clock (sh_expiresAt s) \<longrightarrow> format_share s \<in> set (ls_shares body)"
  proof (intro ballI impI)
    fix s assume "s \<in> set ?S"
      and a: "sh_status s = ''active'' \<and> expiry_in_utc (sh_expiresAt s) \<and>
        not_expired_at clock (sh_expiresAt s)"
    moreover from a have "listed clock s"
      using listed_utc [of s clock] by simp
    ultimately show "format_share s \<in> set (ls_shares body)"
      using kept by simp
  qed
  from fid total only every show ?thesis
    by (intro conjI)
qed

theorem list_shares_returns_unexpired_witness:
  "ls_total
     \<lparr> ls_fileId = ''f1'', ls_filename = ''notes.pdf'',
       ls_shares =
         [format_share (example_share ''s1'' ''ann'' ''active'' None),
          format_share (example_share ''s4'' ''dee'' ''active'' (Some (Iso (Datetime 20 (Some 0)))))],
       ls_total = 2 \<rparr> = 2 \<and>
   fs_status (format_share (example_share ''s4'' ''dee'' ''active'' (Some (Iso (Datetime 20 (Some 0)))))) =
     ''active'' \<and>
   not_expired_at 10
     (fs_expiresAt
        (format_share (example_share ''s4'' ''dee'' ''active'' (Some (Iso (Datetime 20 (Some 0)))))))"
proof -
  let ?s4 = "example_share ''s4'' ''dee'' ''active'' (Some (Iso (Datetime 20 (Some 0))))"
  note listing = list_shares_returns_unexpired [OF example_list_shares]
  have "expiry_in_utc (fs_expiresAt (format_share ?s4))"
    by (simp add: format_share_def example_share_def expiry_in_utc_def written_in_utc_def)
  with listing show ?thesis
    by simp
qed

text \<open>
  Claim C4 as it is written asks for an expiry strictly in the future. A share whose
  expiry is the evaluation time itself is returned: the loop drops a share only when
  \<^verbatim>\<open>now > expiry\<close>.
\<close>

theorem list_shares_strictly_future_counterexample:
  "handle_list_shares [example_file ''active'']
     [example_share ''s5'' ''eve'' ''active'' (Some (Iso (Datetime 10 (Some 0))))]
     10 (Some ''f1'') ''owner'' =
   Success 200
     \<lparr> ls_fileId = ''f1'', ls_filename = ''notes.pdf'',
       ls_shares =
         [format_share (example_share ''s5'' ''eve'' ''active'' (Some (Iso (Datetime 10 (Some 0)))))],
       ls_total = 1 \<rparr> \<and>
   \<not> expires_strictly_after 10
       (example_share ''s5'' ''eve'' ''active'' (Some (Iso (Datetime 10 (Some 0)))))"
  by (simp add: handle_list_shares_def query_FileIdIndex_def query_shares_of_file_def
      example_file_def example_share_def now_after_Iso expires_strictly_after_def
      utc_instant_def)

subsection \<open>Creating shares\<close>

text \<open>
  Every path through the body of the loop that does not raise appends one entry to one
  of the two lists and leaves the other as it was; and on a request of the interface's
  types the body raises only when notifications are on and the file has no filename.
\<close>

lemma process_recipient_one_entry:
  assumes "process_recipient env users_table file_item file_id user_id user_email rq i r st = Inr st'"
  shows "(successful_shares st' = successful_shares st \<and>
          (\<exists>e. failed_shares st' = failed_shares st @ [e])) \<or>
         (failed_shares st' = failed_shares st \<and>
          (\<exists>e. successful_shares st' = successful_shares st @ [e]))"
  using assms
  by (auto simp: process_recipient_def append_failed_def Let_def
      split: option.splits if_splits)

lemma process_recipient_returns:
  assumes "notifications env \<longrightarrow> f_filename file_item \<noteq> None"
  shows "\<exists>st'. process_recipient env users_table file_item file_id user_id user_email rq i r st =
           Inr st'"
proof (cases "notifications env")
  case True
  with assms obtain filename where "f_filename file_item = Some filename"
    by auto
  then show ?thesis
    by (simp add: process_recipient_def Let_def)
next
  case False
  then show ?thesis
    by (simp add: process_recipient_def Let_def)
qed

lemma share_loop_count:
  assumes "notifications env \<longrightarrow> f_filename file_item \<noteq> None"
  shows "\<exists>st'. share_loop env users_table file_item file_id user_id user_email rq i rs st = Inr st' \<and>
           length (successful_shares st') + length (failed_shares st') =
           length rs + (length (successful_shares st) + length (failed_shares st))"
proof (induction rs arbitrary: i st)
  case Nil
  then show ?case by simp
next
  case (Cons r rs)
  from process_recipient_returns [OF assms] obtain st1 where
    step: "process_recipient env users_table file_item file_id user_id user_email rq i r st = Inr st1"
    by blast
  from process_recipient_one_entry [OF step]
  have "length (successful_shares st1) + length (failed_shares st1) =
      Suc (length (successful_shares st) + length (failed_shares st))"
    by auto
  with Cons.IH [of "Suc i" st1] step show ?case by auto
qed

text \<open>
  On a file that has its filename, or with notifications off, a call of the interface's
  types that passes the file-level checks answers 200, with one entry for each of its
  recipients and the two totals adding up to their number.
\<close>

lemma share_file_entries_with_filename:
  assumes "fid \<noteq> []" and "rq_recipients rq \<noteq> []" and "length (rq_recipients rq) \<le> 50"
    and "\<not> file_query_raises env"
    and "query_FileIdIndex files_table fid = file_item # others"
    and "f_userId file_item = user_id" and "f_status file_item = Some ''active''"
    and "notifications env \<longrightarrow> f_filename file_item \<noteq> None"
  shows "\<exists>body shares_table'.
           handle_share_file env files_table users_table shares_table (Some fid) rq
             user_id user_email = (Success 200 body, shares_table') \<and>
           length (sf_shared body) + length (sf_failed body) = length (rq_recipients rq) \<and>
           sf_totalShared body = int (length (sf_shared body)) \<and>
           sf_totalFailed body = int (length (sf_failed body)) \<and>
           sf_totalShared body + sf_totalFailed body = int (length (rq_recipients rq))"
proof -
  from share_loop_count [OF assms(8), of users_table fid user_id user_email rq 0
      "rq_recipients rq"
      "\<lparr> st_shares_table = shares_table, successful_shares = [], failed_shares = [],
         uuids_drawn = 0 \<rparr>"]
  obtain st where
    loop: "share_loop env users_table file_item fid user_id user_email rq 0 (rq_recipients rq)
      \<lparr> st_shares_table = shares_table, successful_shares = [], failed_shares = [],
        uuids_drawn = 0 \<rparr> = Inr st"
    and n: "length (successful_shares st) + length (failed_shares st) = length (rq_recipients rq)"
    by auto
  have "handle_share_file env files_table users_table shares_table (Some fid) rq
          user_id user_email =
        (Success 200
           \<lparr> sf_shared = successful_shares st, sf_failed = failed_shares st,
             sf_totalShared = int (length (successful_shares st)),
             sf_totalFailed = int (length (failed_shares st)) \<rparr>,
         st_shares_table st)"
    using assms(1-7) loop by (simp add: handle_share_file_def)
  with n show ?thesis by simp
qed

text \<open>
  A call on such a file: the first recipient is rejected as a duplicate, the second for its
  address, and the third is shared with all the same.
\<close>

lemma example_share_file:
  "handle_share_file example_env [example_file ''active''] example_users
       [example_share ''s1'' ''ann'' ''active'' None] (Some ''f1'')
       example_request ''owner'' ''owner@campus.edu'' =
   (Success 200
      \<lparr> sf_shared =
          [\<lparr> se_shareId = ''u'', se_email = ''bob@campus.edu'', se_sharedAt = 12,
             se_expiresAt = None, se_status = ''active'' \<rparr>],
        sf_failed =
          [\<lparr> fe_email = Some ''ann@campus.edu'', fe_error = ''File already shared with this user'' \<rparr>,
           \<lparr> fe_email = Some ''not-an-email'', fe_error = ''Invalid email format'' \<rparr>],
        sf_totalShared = 1, sf_totalFailed = 2 \<rparr>,
    [example_share ''s1'' ''ann'' ''active'' None,
     \<lparr> sh_shareId = ''u'', sh_fileId = ''f1'', sh_ownerId = ''owner'',
       sh_sharedWithUserId = ''bob'', sh_sharedWithEmail = ''bob@campus.edu'',
       sh_permissions = ''write'', sh_sharedAt = 12, sh_status = ''active'',
       sh_accessCount = Some 0, sh_message = Some ''hello'', sh_expiresAt = None,
       sh_lastAccessedAt = None, sh_revokedAt = None \<rparr>])"
  by (simp add: handle_share_file_def query_FileIdIndex_def example_file_def example_users_def
      example_share_def example_env_def process_recipient_def py_not_def lower_char_def
      get_user_by_email_def check_existing_share_def share_key_def append_failed_def Let_def
      put_share_def example_request_def)

text \<open>
  A file item without a filename comes about through the upload handler alone: for a file
  id that was never registered, a report of a failed upload creates the item, and a report
  of a successful one, with an object under the reported key in storage, makes it
  \<^verbatim>\<open>active\<close>.
\<close>

lemma unregistered_file_made_active:
  "snd (complete_upload example_upload_env
          (snd (complete_upload example_upload_env [] 1 (Some ''f1'') (example_report False)
                  ''owner''))
          2 (Some ''f1'') (example_report True) ''owner'') =
     [example_unregistered_file]"
  by (simp add: complete_upload_def handle_failed_upload_def example_report_def
      example_upload_env_def get_file_def file_key_def mark_active_def
      format_file_response_def py_not_def Let_def example_unregistered_file_def)

text \<open>
  Claim C7 on the code. The owner shares that file, notifications on, with the two
  registered users \<^verbatim>\<open>bob\<close> and \<^verbatim>\<open>ann\<close>. All file-level checks pass. The share of the
  first recipient is written; then the argument \<^verbatim>\<open>file_item["filename"]\<close> of the
  notification raises \<^verbatim>\<open>KeyError\<close>, which the \<^verbatim>\<open>except ClientError\<close> of the loop does not
  catch: the handler answers 500, the first recipient has no entry in any list, and the
  second recipient is never processed.
\<close>

theorem share_file_batch_aborted:
  "handle_share_file example_env [example_unregistered_file] example_users [] (Some ''f1'')
     example_two_recipients ''owner'' ''owner@campus.edu'' =
   (Failure 500 ''Internal Server Error'' ''KeyError'',
    [\<lparr> sh_shareId = ''u'', sh_fileId = ''f1'', sh_ownerId = ''owner'',
       sh_sharedWithUserId = ''bob'', sh_sharedWithEmail = ''bob@campus.edu'',
       sh_permissions = ''read'', sh_sharedAt = 10, sh_status = ''active'',
       sh_accessCount = Some 0, sh_message = None, sh_expiresAt = None,
       sh_lastAccessedAt = None, sh_revokedAt = None \<rparr>])"
  by (simp add: handle_share_file_def query_FileIdIndex_def example_unregistered_file_def
      example_users_def example_env_def process_recipient_def py_not_def lower_char_def
      get_user_by_email_def check_existing_share_def share_key_def append_failed_def Let_def
      put_share_def example_two_recipients_def internal_error_def)

text \<open>
  The duplicate check, for a recipient with a well-formed address that is not the
  owner's and belongs to a registered user: the recipient is rejected as soon as the
  item under (file, user) has the stored status \<^verbatim>\<open>active\<close>, whatever its expiry.
\<close>

lemma duplicate_check_reads_status_only:
  assumes "r_email r = Some email" and "CHR ''@'' \<in> set email" and "CHR ''.'' \<in> set email"
    and "lower email \<noteq> lower user_email"
    and "get_user_by_email (user_lookup_raises env i) users_table email = Some u"
    and "check_existing_share (share_lookup_raises env i) (st_shares_table st) file_id
           (u_userId u) = Some existing"
    and "sh_status existing = ''active''"
  shows "process_recipient env users_table file_item file_id user_id user_email rq i r st =
           Inr (append_failed st (Some email) ''File already shared with this user'')"
proof -
  from assms(2) have "email \<noteq> []" by auto
  with assms show ?thesis
    by (simp add: process_recipient_def py_not_def Let_def)
qed

text \<open>
  Claim C1 on the code. The user \<^verbatim>\<open>ann\<close> holds a share of the file whose stored status
  is \<^verbatim>\<open>active\<close> and whose expiry (5) is before the clock (10), so that
  \<^verbatim>\<open>handle_list_shares\<close> no longer lists it. Sharing the file with her again is rejected
  as a duplicate: the loop reads the stored status only and never the expiry.
\<close>

theorem share_file_expired_share_rejected:
  "handle_share_file example_env [example_file ''active''] example_users
     [example_share ''s3'' ''ann'' ''active'' (Some (Iso (Datetime 5 (Some 0))))]
     (Some ''f1'')
     \<lparr> rq_recipients = [\<lparr> r_email = Some ''ann@campus.edu'', r_permissions = None \<rparr>],
       rq_message = '''', rq_expiresAt = None \<rparr>
     ''owner'' ''owner@campus.edu'' =
   (Success 200
      \<lparr> sf_shared = [],
        sf_failed = [\<lparr> fe_email = Some ''ann@campus.edu'',
                       fe_error = ''File already shared with this user'' \<rparr>],
        sf_totalShared = 0, sf_totalFailed = 1 \<rparr>,
    [example_share ''s3'' ''ann'' ''active'' (Some (Iso (Datetime 5 (Some 0))))]) \<and>
   utc_clock example_env 0 = 10 \<and>
   \<not> listed 10 (example_share ''s3'' ''ann'' ''active'' (Some (Iso (Datetime 5 (Some 0)))))"
  by (simp add: handle_share_file_def query_FileIdIndex_def example_file_def example_users_def
      example_share_def example_env_def process_recipient_def py_not_def lower_char_def
      get_user_by_email_def check_existing_share_def share_key_def append_failed_def Let_def
      listed_def)


subsection \<open>Revoking a share\<close>

lemma query_ShareIdIndex_update:
  "query_ShareIdIndex (update_share_revoked shares_table key clock) sid =
     update_share_revoked (query_ShareIdIndex shares_table sid) key clock"
  by (induction shares_table) (auto simp: query_ShareIdIndex_def update_share_revoked_def)

lemma query_ShareIdIndex_never_revoked:
  "query_ShareIdIndex (never_revoked shares_table) sid =
     never_revoked (query_ShareIdIndex shares_table sid)"
  by (induction shares_table) (auto simp: query_ShareIdIndex_def never_revoked_def)

lemma revoke_found:
  assumes "fid \<noteq> []" and "sid \<noteq> []"
    and "query_FileIdIndex files_table fid = file_item # others"
    and "f_userId file_item = user_id"
    and "query_ShareIdIndex shares_table sid = share # later"
    and "sh_fileId share = fid"
  shows "handle_revoke_share files_table shares_table clock (Some fid) (Some sid) user_id =
           (Success 200
              \<lparr> rv_success = True, rv_message = ''Share access revoked'', rv_shareId = sid \<rparr>,
            update_share_revoked shares_table (fid, sh_sharedWithUserId share) clock)"
  using assms by (simp add: handle_revoke_share_def)

text \<open>
  Claim C10. The requester owns the file, the share is found by its id and belongs to
  the file, and its stored status is already \<^verbatim>\<open>revoked\<close>. The handler does not read
  the status: it answers with the success body, the same response as on the table where
  no share has been revoked yet, and it writes the clock into \<^verbatim>\<open>revokedAt\<close> of the
  share, so the table changes whenever the share carried another revocation time.
\<close>

theorem revoke_revoked_share_restamps:
  assumes "fid \<noteq> []" and "sid \<noteq> []"
    and "query_FileIdIndex files_table fid = file_item # others"
    and "f_userId file_item = user_id"
    and "query_ShareIdIndex shares_table sid = share # later"
    and "sh_fileId share = fid"
    and "sh_status share = ''revoked''"
  shows "fst (handle_revoke_share files_table shares_table clock (Some fid) (Some sid) user_id) =
           Success 200
             \<lparr> rv_success = True, rv_message = ''Share access revoked'', rv_shareId = sid \<rparr> \<and>
         fst (handle_revoke_share files_table shares_table clock (Some fid) (Some sid) user_id) =
           fst (handle_revoke_share files_table (never_revoked shares_table) clock
                  (Some fid) (Some sid) user_id) \<and>
         (\<exists>rest. query_ShareIdIndex
              (snd (handle_revoke_share files_table shares_table clock (Some fid) (Some sid) user_id))
              sid = share\<lparr>sh_revokedAt := Some clock\<rparr> # rest) \<and>
         (sh_revokedAt share \<noteq> Some clock \<longrightarrow>
            snd (handle_revoke_share files_table shares_table clock (Some fid) (Some sid) user_id)
              \<noteq> shares_table)"
proof -
  let ?key = "(fid, sh_sharedWithUserId share)"
  have run: "handle_revoke_share files_table shares_table clock (Some fid) (Some sid) user_id =
      (Success 200
         \<lparr> rv_success = True, rv_message = ''Share access revoked'', rv_shareId = sid \<rparr>,
       update_share_revoked shares_table ?key clock)"
    using assms(1-6) by (rule revoke_found)
  have "query_ShareIdIndex (never_revoked shares_table) sid =
      share\<lparr>sh_status := ''active'', sh_revokedAt := None\<rparr> # never_revoked later"
    using assms(5) by (simp add: query_ShareIdIndex_never_revoked) (simp add: never_revoked_def)
  with assms(1-4,6)
  have first: "fst (handle_revoke_share files_table (never_revoked shares_table) clock
      (Some fid) (Some sid) user_id) =
      Success 200
         \<lparr> rv_success = True, rv_message = ''Share access revoked'', rv_shareId = sid \<rparr>"
    by (simp add: handle_revoke_share_def)
  have upd: "share\<lparr>sh_status := ''revoked'', sh_revokedAt := Some clock\<rparr> =
      share\<lparr>sh_revokedAt := Some clock\<rparr>"
    using assms(7) by simp
  have after: "query_ShareIdIndex (update_share_revoked shares_table ?key clock) sid =
      share\<lparr>sh_revokedAt := Some clock\<rparr> # update_share_revoked later ?key clock"
    using assms(5,6) upd
    by (simp add: query_ShareIdIndex_update) (simp add: update_share_revoked_def share_key_def)
  have changed: "update_share_revoked shares_table ?key clock \<noteq> shares_table"
    if "sh_revokedAt share \<noteq> Some clock"
  proof
    assume "update_share_revoked shares_table ?key clock = shares_table"
    with after assms(5) have "share\<lparr>sh_revokedAt := Some clock\<rparr> = share" by simp
    then have "sh_revokedAt (share\<lparr>sh_revokedAt := Some clock\<rparr>) = sh_revokedAt share"
      by simp
    with that show False by simp
  qed
  from run first after changed show ?thesis by simp
qed

theorem revoke_revoked_share_restamps_witness:
  "fst (handle_revoke_share [example_file ''active''] [example_revoked_share] 9
          (Some ''f1'') (Some ''s2'') ''owner'') =
     Success 200
       \<lparr> rv_success = True, rv_message = ''Share access revoked'', rv_shareId = ''s2'' \<rparr> \<and>
   snd (handle_revoke_share [example_file ''active''] [example_revoked_share] 9
          (Some ''f1'') (Some ''s2'') ''owner'') \<noteq> [example_revoked_share]"
proof -
  have f: "query_FileIdIndex [example_file ''active''] ''f1'' = example_file ''active'' # []"
    by (simp add: query_FileIdIndex_def example_file_def)
  have o: "f_userId (example_file ''active'') = ''owner''"
    by (simp add: example_file_def)
  have s: "query_ShareIdIndex [example_revoked_share] ''s2'' = example_revoked_share # []"
    by (simp add: query_ShareIdIndex_def example_revoked_share_def example_share_def)
  have b: "sh_fileId example_revoked_share = ''f1''"
    by (simp add: example_revoked_share_def example_share_def)
  have r: "sh_status example_revoked_share = ''revoked''"
    by (simp add: example_revoked_share_def example_share_def)
  have t: "sh_revokedAt example_revoked_share \<noteq> Some 9"
    by (simp add: example_revoked_share_def example_share_def)
  have "''f1'' \<noteq> []" and "''s2'' \<noteq> []" by simp_all
  from revoke_revoked_share_restamps [OF this f o s b r, of 9] t show ?thesis
    by blast
qed


subsection \<open>Submitting and grading\<close>

text \<open>
  A request that has passed the checks before the count (assignment found and
  \<^verbatim>\<open>active\<close>, due date readable, the student's file found, \<^verbatim>\<open>active\<close>, of an allowed type
  and within the size limit) and is below the limit of submissions reaches
  \<^verbatim>\<open>put_item\<close>, with the record numbered one above the count of the stored submissions
  of the pair (assignment, student), and with \<^verbatim>\<open>isLate\<close> as \<^verbatim>\<open>now > due_date\<close>
  computed it.
\<close>

lemma submit_reaches_put:
  assumes "aid \<noteq> []" and "fid \<noteq> []"
    and "query_AssignmentIdIndex assignments_table aid = assignment # others"
    and "as_status assignment = ''active''"
    and "as_dueDate assignment = Iso due"
    and "get_file files_table user_id fid = Some file_item"
    and "f_status file_item = Some ''active''"
    and "f_filename file_item = Some filename"
    and "f_contentType file_item = Some content_type"
    and "f_fileSize file_item = Some file_size"
    and "case as_allowedFileTypes assignment of None \<Rightarrow> True | Some allowed \<Rightarrow> content_type \<in> set allowed"
    and "case as_maxFileSize assignment of None \<Rightarrow> True | Some max_size \<Rightarrow> file_size \<le> max_size"
    and "int (length (existing_submissions submissions_table aid user_id)) <
           (case as_maxSubmissions assignment of None \<Rightarrow> 1 | Some n \<Rightarrow> n)"
  shows "handle_submit_assignment files_table assignments_table submissions_table now timestamp
           submission_id (Some aid) (Some fid) comments user_id user_email user_name =
         (case put_submission submissions_table False
                 (created_submission submission_id aid user_id user_email user_name fid filename
                    file_size timestamp
                    (int (length (existing_submissions submissions_table aid user_id)) + 1)
                    (wall due < now) (Iso due) comments) of
            Inl e \<Rightarrow> (internal_error e, assignments_table, submissions_table)
          | Inr submissions_table' \<Rightarrow>
              (case increment_submissionCount assignments_table (as_courseId assignment, aid) of
                 Inl e \<Rightarrow> (internal_error e, assignments_table, submissions_table')
               | Inr assignments_table' \<Rightarrow>
                   (Success 201
                      \<lparr> sb_submissionId = submission_id, sb_assignmentId = aid,
                        sb_fileId = fid, sb_filename = filename, sb_submittedAt = timestamp,
                        sb_submissionNumber =
                          int (length (existing_submissions submissions_table aid user_id)) + 1,
                        sb_status = ''submitted'',
                        sb_isLate = (wall due < now), sb_comments = comments \<rparr>,
                    assignments_table', submissions_table')))"
  using assms
  by (simp add: handle_submit_assignment_def Let_def now_after_Iso not_le created_submission_def
      split: option.splits sum.splits)

text \<open>
  The store rejects the record, which has no \<^verbatim>\<open>studentId#submissionNumber\<close>: the request
  is answered with a 500, and neither table is written.
\<close>

lemma submit_put_rejected:
  assumes "aid \<noteq> []" and "fid \<noteq> []"
    and "query_AssignmentIdIndex assignments_table aid = assignment # others"
    and "as_status assignment = ''active''"
    and "as_dueDate assignment = Iso due"
    and "get_file files_table user_id fid = Some file_item"
    and "f_status file_item = Some ''active''"
    and "f_filename file_item = Some filename"
    and "f_contentType file_item = Some content_type"
    and "f_fileSize file_item = Some file_size"
    and "case as_allowedFileTypes assignment of None \<Rightarrow> True | Some allowed \<Rightarrow> content_type \<in> set allowed"
    and "case as_maxFileSize assignment of None \<Rightarrow> True | Some max_size \<Rightarrow> file_size \<le> max_size"
    and "int (length (existing_submissions submissions_table aid user_id)) <
           (case as_maxSubmissions assignment of None \<Rightarrow> 1 | Some n \<Rightarrow> n)"
  shows "handle_submit_assignment files_table assignments_table submissions_table now timestamp
           submission_id (Some aid) (Some fid) comments user_id user_email user_name =
         (Failure 500 ''Internal Server Error'' ''ClientError'',
          assignments_table, submissions_table)"
  unfolding submit_reaches_put [OF assms]
  by (simp add: put_submission_def internal_error_def)

lemma submit_rejected:
  assumes "aid \<noteq> []" and "fid \<noteq> []"
    and "query_AssignmentIdIndex assignments_table aid = assignment # others"
    and "as_status assignment = ''active''"
    and "as_dueDate assignment = Iso due"
    and "get_file files_table user_id fid = Some file_item"
    and "f_status file_item = Some ''active''"
    and "f_contentType file_item = Some content_type"
    and "f_fileSize file_item = Some file_size"
    and "case as_allowedFileTypes assignment of None \<Rightarrow> True | Some allowed \<Rightarrow> content_type \<in> set allowed"
    and "case as_maxFileSize assignment of None \<Rightarrow> True | Some max_size \<Rightarrow> file_size \<le> max_size"
    and "(case as_maxSubmissions assignment of None \<Rightarrow> 1 | Some n \<Rightarrow> n) \<le>
           int (length (existing_submissions submissions_table aid user_id))"
  shows "handle_submit_assignment files_table assignments_table submissions_table now timestamp
           submission_id (Some aid) (Some fid) comments user_id user_email user_name =
         (Failure 403 ''Forbidden'' ''Maximum submission limit reached'',
          assignments_table, submissions_table)"
  using assms
  by (simp add: handle_submit_assignment_def Let_def now_after_Iso forbidden_def
      split: option.splits)

lemmas example_submit_defs =
  example_submit_def handle_submit_assignment_def example_counted_def example_assignment_def
  example_student_file_def example_record_def created_submission_def
  query_AssignmentIdIndex_def get_file_def existing_submissions_def put_submission_def
  submission_key_def increment_submissionCount_def now_after_Iso Let_def forbidden_def
  internal_error_def

text \<open>
  Claim C2 on the code. The assignment \<^verbatim>\<open>a1\<close> takes two submissions per student, and the
  student \<^verbatim>\<open>stu\<close> has none stored: \<open>c = 0\<close> is below \<open>m = 2\<close>, and the request passes
  every check. The handler builds the record numbered 1, \<^verbatim>\<open>put_item\<close> raises, and the
  answer is a 500 with no submission stored and the counter of the assignment as it was.
\<close>

theorem submit_below_limit_stores_nothing:
  "existing_submissions [] ''a1'' ''stu'' = [] \<and>
   map as_maxSubmissions (query_AssignmentIdIndex (example_counted 0) ''a1'') = [Some 2] \<and>
   example_submit (example_counted 0) [] 50 ''x1'' =
     (Failure 500 ''Internal Server Error'' ''ClientError'', example_counted 0, [])"
  by (simp add: example_submit_defs)

text \<open>
  No answer of the handler comes with a table written: the answers before
  \<^verbatim>\<open>put_item\<close> write nothing, and \<^verbatim>\<open>put_item\<close> raises.
\<close>

lemma submit_never_writes:
  assumes "handle_submit_assignment files_table assignments_table submissions_table now timestamp
             submission_id assignment_id file_id comments user_id user_email user_name =
           (response, assignments_table', submissions_table')"
  shows "assignments_table' = assignments_table \<and> submissions_table' = submissions_table"
  using assms
  by (auto simp: handle_submit_assignment_def Let_def put_submission_def
      split: option.splits list.splits if_splits sum.splits)

lemma set_grade_isLate: "sub_isLate (set_grade rq grade timestamp user_id user_name s) = sub_isLate s"
  by (simp add: set_grade_def Let_def)

lemma grade_keeps_isLate:
  "map sub_isLate
     (snd (handle_grade_submission assignments_table submissions_table timestamp assignment_id
             submission_id rq user_id user_role user_name)) =
   map sub_isLate submissions_table"
  by (auto simp: handle_grade_submission_def Let_def update_submission_grade_def set_grade_isLate
      split: option.splits list.splits)

text \<open>
  Claim C8. Every answer of \<^verbatim>\<open>handle_submit_assignment\<close> with status 400, 403 or 404
  (a missing assignment or file id, assignment not found or not active, file not found
  or not active, disallowed content type, file over the size limit, submission limit
  reached) leaves both tables it writes as they were: no submission record is put, and
  no \<^verbatim>\<open>submissionCount\<close> is changed.
\<close>

theorem submit_validation_error_writes_nothing:
  assumes "handle_submit_assignment files_table assignments_table submissions_table now timestamp
             submission_id assignment_id file_id comments user_id user_email user_name =
           (Failure code err msg, assignments_table', submissions_table')"
    and "code \<in> {400, 403, 404}"
  shows "assignments_table' = assignments_table \<and> submissions_table' = submissions_table"
  using submit_never_writes [OF assms(1)] .

theorem submit_validation_error_writes_nothing_witness:
  "handle_submit_assignment [example_student_file\<lparr>f_contentType := Some ''image/png''\<rparr>]
     (example_counted 0) [] 50 50 ''x1'' (Some ''a1'') (Some ''f9'') [] ''stu''
     ''stu@campus.edu'' ''Stu'' =
   (Failure 400 ''Bad Request'' ''File type is not allowed for this assignment'',
    example_counted 0, [])"
proof -
  let ?run = "handle_submit_assignment [example_student_file\<lparr>f_contentType := Some ''image/png''\<rparr>]
     (example_counted 0) [] 50 50 ''x1'' (Some ''a1'') (Some ''f9'') [] ''stu''
     ''stu@campus.edu'' ''Stu''"
  have r: "fst ?run = Failure 400 ''Bad Request'' ''File type is not allowed for this assignment''"
    by (simp add: example_submit_defs bad_request_def)
  then obtain A' S' where run:
    "?run = (Failure 400 ''Bad Request'' ''File type is not allowed for this assignment'', A', S')"
    by (cases ?run) simp
  from submit_validation_error_writes_nothing [OF run] have "A' = example_counted 0 \<and> S' = []"
    by simp
  with run show ?thesis by simp
qed


lemma contains_instructor: "\<not> not_instructor ''instructor''"
  by (simp add: not_instructor_def lower_char_def)

lemma query_SubmissionIdIndex_update:
  "query_SubmissionIdIndex (update_submission_grade submissions_table key (set_grade rq g t u n)) sid =
     update_submission_grade (query_SubmissionIdIndex submissions_table sid) key (set_grade rq g t u n)"
  by (induction submissions_table)
    (auto simp: query_SubmissionIdIndex_def update_submission_grade_def set_grade_def Let_def)

lemma update_submission_grade_status:
  "list_all2 (\<lambda>old new. new = old \<or> sub_status new = ''graded'') submissions_table
     (update_submission_grade submissions_table key (set_grade rq g t u n))"
  by (induction submissions_table)
    (auto simp: update_submission_grade_def set_grade_def Let_def)

lemma grade_found:
  assumes "\<not> not_instructor user_role" and "aid \<noteq> []" and "sid \<noteq> []"
    and "gr_grade rq = Some grade"
    and "query_AssignmentIdIndex assignments_table aid = assignment # others"
    and "as_instructorId assignment = user_id"
    and "query_SubmissionIdIndex submissions_table sid = submission # later"
    and "sub_assignmentId submission = aid"
  shows "handle_grade_submission assignments_table submissions_table timestamp (Some aid)
           (Some sid) rq user_id user_role user_name =
         (Success 200
            \<lparr> gb_submissionId = sid, gb_grade = grade,
              gb_maxGrade = (case gr_maxGrade rq of None \<Rightarrow> 100 | Some m \<Rightarrow> m),
              gb_feedback = gr_feedback rq, gb_gradedAt = timestamp,
              gb_gradedBy = user_id, gb_gradedByName = user_name, gb_status = ''graded'' \<rparr>,
          update_submission_grade submissions_table
            (aid, sub_studentId submission, sub_submissionNumber submission)
            (set_grade rq grade timestamp user_id user_name))"
  using assms by (simp add: handle_grade_submission_def Let_def)

text \<open>
  Claim C3, as the code has it. \<^verbatim>\<open>handle_grade_submission\<close> does not read the status of
  the submission it grades. On a submission found under its id and belonging to the
  assignment, graded before or not, it answers 200 and overwrites grade, maxGrade,
  feedback, grading time and grader with the values of the request; the status is
  \<^verbatim>\<open>graded\<close> afterwards, and no stored submission changes in any other way.
\<close>

theorem grade_overwrites_grade_fields:
  assumes "\<not> not_instructor user_role" and "aid \<noteq> []" and "sid \<noteq> []"
    and "gr_grade rq = Some grade"
    and "query_AssignmentIdIndex assignments_table aid = assignment # others"
    and "as_instructorId assignment = user_id"
    and "query_SubmissionIdIndex submissions_table sid = submission # later"
    and "sub_assignmentId submission = aid"
  shows "\<exists>body submissions_table' graded rest.
           handle_grade_submission assignments_table submissions_table timestamp (Some aid)
             (Some sid) rq user_id user_role user_name = (Success 200 body, submissions_table') \<and>
           query_SubmissionIdIndex submissions_table' sid = graded # rest \<and>
           sub_status graded = ''graded'' \<and>
           sub_grade graded = Some grade \<and>
           sub_maxGrade graded = Some (case gr_maxGrade rq of None \<Rightarrow> 100 | Some m \<Rightarrow> m) \<and>
           sub_feedback graded = Some (take 2000 (gr_feedback rq)) \<and>
           sub_gradedAt graded = Some timestamp \<and>
           sub_gradedBy graded = Some user_id \<and>
           sub_gradedByName graded = Some user_name \<and>
           list_all2 (\<lambda>old new. new = old \<or> sub_status new = ''graded'')
             submissions_table submissions_table'"
proof -
  let ?key = "(aid, sub_studentId submission, sub_submissionNumber submission)"
  let ?upd = "set_grade rq grade timestamp user_id user_name"
  have "query_SubmissionIdIndex (update_submission_grade submissions_table ?key ?upd) sid =
      ?upd submission # update_submission_grade later ?key ?upd"
    using assms(7,8)
    by (simp add: query_SubmissionIdIndex_update)
      (simp add: update_submission_grade_def submission_key_def)
  moreover have "sub_status (?upd submission) = ''graded'' \<and>
      sub_grade (?upd submission) = Some grade \<and>
      sub_maxGrade (?upd submission) = Some (case gr_maxGrade rq of None \<Rightarrow> 100 | Some m \<Rightarrow> m) \<and>
      sub_feedback (?upd submission) = Some (take 2000 (gr_feedback rq)) \<and>
      sub_gradedAt (?upd submission) = Some timestamp \<and>
      sub_gradedBy (?upd submission) = Some user_id \<and>
      sub_gradedByName (?upd submission) = Some user_name"
    by (simp add: set_grade_def Let_def)
  ultimately show ?thesis
    using grade_found [OF assms, of timestamp user_name] update_submission_grade_status
    by blast
qed

theorem grade_overwrites_grade_fields_witness:
  "\<exists>body submissions_table' graded rest.
     handle_grade_submission (example_counted 2) [example_graded] 300 (Some ''a1'')
       (Some ''x2'') (example_grade_request 90 ''regraded'') ''prof'' ''instructor'' ''Prof'' =
       (Success 200 body, submissions_table') \<and>
     query_SubmissionIdIndex submissions_table' ''x2'' = graded # rest \<and>
     sub_status graded = ''graded'' \<and>
     sub_grade graded = Some 90 \<and>
     sub_maxGrade graded =
       Some (case gr_maxGrade (example_grade_request 90 ''regraded'') of
               None \<Rightarrow> 100 | Some m \<Rightarrow> m) \<and>
     sub_feedback graded = Some (take 2000 (gr_feedback (example_grade_request 90 ''regraded''))) \<and>
     sub_gradedAt graded = Some 300 \<and>
     sub_gradedBy graded = Some ''prof'' \<and>
     sub_gradedByName graded = Some ''Prof'' \<and>
     list_all2 (\<lambda>old new. new = old \<or> sub_status new = ''graded'')
       [example_graded] submissions_table'"
  by (rule grade_overwrites_grade_fields
      [where assignment = "(example_assignment (Some 2))\<lparr>as_submissionCount := Some 2\<rparr>"
         and others = "[]" and submission = example_graded and later = "[]"])
    (simp_all add: contains_instructor example_grade_request_def example_counted_def
      example_assignment_def query_AssignmentIdIndex_def query_SubmissionIdIndex_def
      example_graded_def example_record_def created_submission_def set_grade_def Let_def
      py_not_def)

text \<open>
  Claim C3 as it is written: a submission graded 50 at time 200 is graded again, 90 at
  time 300, and the stored grade, feedback and grading time are those of the second call.
\<close>

theorem graded_fields_immutable_counterexample:
  "sub_status example_graded = ''graded'' \<and>
   map sub_grade [example_graded] = [Some 50] \<and>
   map sub_gradedAt [example_graded] = [Some 200] \<and>
   map sub_feedback [example_graded] = [Some ''late work''] \<and>
   map sub_grade
     (snd (handle_grade_submission (example_counted 2) [example_graded] 300 (Some ''a1'')
             (Some ''x2'') (example_grade_request 90 ''regraded'') ''prof'' ''instructor''
             ''Prof'')) = [Some 90] \<and>
   map sub_gradedAt
     (snd (handle_grade_submission (example_counted 2) [example_graded] 300 (Some ''a1'')
             (Some ''x2'') (example_grade_request 90 ''regraded'') ''prof'' ''instructor''
             ''Prof'')) = [Some 300] \<and>
   map sub_feedback
     (snd (handle_grade_submission (example_counted 2) [example_graded] 300 (Some ''a1'')
             (Some ''x2'') (example_grade_request 90 ''regraded'') ''prof'' ''instructor''
             ''Prof'')) = [Some ''regraded'']"
  by (simp add: handle_grade_submission_def contains_instructor example_grade_request_def
      example_counted_def example_assignment_def query_AssignmentIdIndex_def
      query_SubmissionIdIndex_def example_graded_def example_record_def created_submission_def
      set_grade_def update_submission_grade_def submission_key_def Let_def py_not_def)

subsection \<open>Completing an upload\<close>

lemma get_file_Some:
  "get_file files_table user_id fid = Some f \<Longrightarrow> file_key f = (user_id, fid)"
  by (auto simp: get_file_def file_key_def split: list.splits dest: filter_eq_ConsD)

lemma get_file_Cons:
  "get_file (x # xs) user_id fid =
     (if file_key x = (user_id, fid) then Some x else get_file xs user_id fid)"
  by (simp add: get_file_def file_key_def)

lemma get_file_map:
  assumes "get_file files_table user_id fid = Some f"
    and "\<And>x. file_key (upd x) = file_key x"
  shows "get_file (map (\<lambda>x. if file_key x = (user_id, fid) then upd x else x) files_table)
           user_id fid = Some (upd f)"
  using assms(1)
proof (induction files_table)
  case Nil
  then show ?case by (simp add: get_file_def)
next
  case (Cons x xs)
  then show ?case
    by (cases "file_key x = (user_id, fid)") (simp_all add: get_file_Cons assms(2))
qed

lemma file_key_mark_active:
  "file_key (mark_active timestamp actual_file_size s3_etag checksum x) = file_key x"
  by (simp add: mark_active_def file_key_def)

lemma file_key_mark_failed:
  "file_key (x\<lparr>f_status := Some ''failed'', f_lastModified := Some timestamp\<rparr>) = file_key x"
  by (simp add: file_key_def)

text \<open>
  Claim C6, as the code has it, for the file \<open>f\<close> stored under the key of the request.
  A request that reports success leaves the table as it is when the file is
  \<^verbatim>\<open>active\<close> (the guard \<^verbatim>\<open>Check if already completed\<close>). A file that is \<^verbatim>\<open>failed\<close> is
  still \<^verbatim>\<open>failed\<close> after a request that reports failure; but \<^verbatim>\<open>failed\<close> is not final:
  a request that reports success, with the object found in storage and the store
  answering, makes the file \<^verbatim>\<open>active\<close>.
\<close>

theorem complete_upload_transitions:
  assumes "fid \<noteq> []" and "get_file files_table user_id fid = Some f"
  shows "(f_status f = Some ''active'' \<and> cr_uploadSuccess rq \<longrightarrow>
            snd (complete_upload env files_table timestamp (Some fid) rq user_id) =
              files_table) \<and>
         (f_status f = Some ''failed'' \<and> \<not> cr_uploadSuccess rq \<longrightarrow>
            (\<exists>f'. get_file (snd (complete_upload env files_table timestamp (Some fid) rq user_id))
                    user_id fid = Some f' \<and> f_status f' = Some ''failed'')) \<and>
         (f_status f = Some ''failed'' \<and> cr_uploadSuccess rq \<and> cr_s3Key rq = Some s3_key \<and>
          s3_key \<noteq> [] \<and> head_object env s3_key = Head_object actual_file_size s3_etag \<and>
          \<not> get_item_raises env \<and> \<not> update_item_raises env \<longrightarrow>
            get_file (snd (complete_upload env files_table timestamp (Some fid) rq user_id))
              user_id fid =
              Some (mark_active timestamp actual_file_size s3_etag (cr_checksum rq) f))"
proof (intro conjI impI)
  assume "f_status f = Some ''active'' \<and> cr_uploadSuccess rq"
  with assms show "snd (complete_upload env files_table timestamp (Some fid) rq user_id) =
      files_table"
    using get_file_Some [OF assms(2)]
    by (simp add: complete_upload_def Let_def file_key_def split: option.splits sum.splits)
next
  assume a: "f_status f = Some ''failed'' \<and> \<not> cr_uploadSuccess rq"
  show "\<exists>f'. get_file (snd (complete_upload env files_table timestamp (Some fid) rq user_id))
      user_id fid = Some f' \<and> f_status f' = Some ''failed''"
  proof (cases "update_item_raises env")
    case True
    with a assms show ?thesis
      by (simp add: complete_upload_def handle_failed_upload_def Let_def)
  next
    case False
    have ex: "\<exists>x \<in> set files_table. file_key x = (user_id, fid)"
      using assms(2) get_file_Some [OF assms(2)]
      by (auto simp: get_file_def split: list.splits dest!: filter_eq_ConsD)
    with a assms(1) False
      get_file_map [OF assms(2),
        of "\<lambda>x. x\<lparr>f_status := Some ''failed'', f_lastModified := Some timestamp\<rparr>",
        OF file_key_mark_failed]
    show ?thesis
      by (simp add: complete_upload_def handle_failed_upload_def Let_def)
  qed
next
  assume a: "f_status f = Some ''failed'' \<and> cr_uploadSuccess rq \<and> cr_s3Key rq = Some s3_key \<and>
          s3_key \<noteq> [] \<and> head_object env s3_key = Head_object actual_file_size s3_etag \<and>
          \<not> get_item_raises env \<and> \<not> update_item_raises env"
  from a assms get_file_Some [OF assms(2)]
    get_file_map [OF assms(2), of "mark_active timestamp actual_file_size s3_etag (cr_checksum rq)",
      OF file_key_mark_active]
  show "get_file (snd (complete_upload env files_table timestamp (Some fid) rq user_id))
      user_id fid = Some (mark_active timestamp actual_file_size s3_etag (cr_checksum rq) f)"
    by (simp add: complete_upload_def Let_def file_key_def split: option.splits sum.splits)
qed

theorem complete_upload_transitions_witness:
  "snd (complete_upload example_upload_env [example_file ''active''] 9 (Some ''f1'')
          (example_report True) ''owner'') = [example_file ''active''] \<and>
   get_file
     (snd (complete_upload example_upload_env [example_file ''failed''] 9 (Some ''f1'')
             (example_report False) ''owner''))
     ''owner'' ''f1'' = Some ((example_file ''failed'')\<lparr>f_lastModified := Some 9\<rparr>) \<and>
   get_file
     (snd (complete_upload example_upload_env [example_file ''failed''] 9 (Some ''f1'')
             (example_report True) ''owner''))
     ''owner'' ''f1'' = Some (mark_active 9 100 ''etag'' None (example_file ''failed''))"
proof -
  have n: "''f1'' \<noteq> []" by simp
  have a: "get_file [example_file ''active''] ''owner'' ''f1'' = Some (example_file ''active'')"
    by (simp add: get_file_def example_file_def)
  have f: "get_file [example_file ''failed''] ''owner'' ''f1'' = Some (example_file ''failed'')"
    by (simp add: get_file_def example_file_def)
  have sa: "f_status (example_file ''active'') = Some ''active''"
    and sf: "f_status (example_file ''failed'') = Some ''failed''"
    by (simp_all add: example_file_def)
  have rq: "cr_uploadSuccess (example_report True)" "\<not> cr_uploadSuccess (example_report False)"
    "cr_s3Key (example_report True) = Some ''uploads/f1''"
    "cr_checksum (example_report True) = None"
    "head_object example_upload_env ''uploads/f1'' = Head_object 100 ''etag''"
    "\<not> get_item_raises example_upload_env" "\<not> update_item_raises example_upload_env"
    by (simp_all add: example_report_def example_upload_env_def)
  have second: "get_file
     (snd (complete_upload example_upload_env [example_file ''failed''] 9 (Some ''f1'')
             (example_report False) ''owner''))
     ''owner'' ''f1'' = Some ((example_file ''failed'')\<lparr>f_lastModified := Some 9\<rparr>)"
    by (simp add: complete_upload_def handle_failed_upload_def example_file_def
        example_report_def example_upload_env_def get_file_def file_key_def Let_def)
  from complete_upload_transitions [OF n a, of "example_report True" example_upload_env 9]
    complete_upload_transitions [OF n f, of "example_report True" example_upload_env 9
      "''uploads/f1''" 100 "''etag''"]
    sa sf rq second
  show ?thesis by simp
qed

text \<open>
  Claim C6 as it is written fails both ways: \<^verbatim>\<open>handle_failed_upload\<close> sets the status
  without reading the file, so a failure report turns an \<^verbatim>\<open>active\<close> file into a
  \<^verbatim>\<open>failed\<close> one, and a success report turns a \<^verbatim>\<open>failed\<close> file into an \<^verbatim>\<open>active\<close> one.
\<close>

theorem complete_upload_terminal_counterexample:
  "map f_status
     (snd (complete_upload example_upload_env [example_file ''active''] 9 (Some ''f1'')
             (example_report False) ''owner'')) = [Some ''failed''] \<and>
   map f_status
     (snd (complete_upload example_upload_env [example_file ''failed''] 9 (Some ''f1'')
             (example_report True) ''owner'')) = [Some ''active'']"
  by (simp add: complete_upload_def handle_failed_upload_def example_file_def example_report_def
      example_upload_env_def get_file_def file_key_def mark_active_def
      format_file_response_def py_not_def Let_def)

subsection \<open>Pagination tokens\<close>

lemma exclusive_start_key_Not_json:
  "exclusive_start_key (Some Not_json) = exclusive_start_key None"
  by (simp add: exclusive_start_key_def)

text \<open>
  A \<^verbatim>\<open>nextToken\<close> on which \<^verbatim>\<open>json.loads\<close> raises \<^verbatim>\<open>JSONDecodeError\<close> is ignored by both
  paginated handlers, and the answer is the answer to the same request without a token,
  the first page.
\<close>

lemma invalid_json_token_restarts:
  "handle_shared_with_me files_query_raises files_table shares_table clock limit_param
       (Some Not_json) user_id =
     handle_shared_with_me files_query_raises files_table shares_table clock limit_param
       None user_id \<and>
   handle_list_submissions assignments_table submissions_table assignment_id status_filter
       limit_param2 (Some Not_json) user_id2 user_role =
     handle_list_submissions assignments_table submissions_table assignment_id status_filter
       limit_param2 None user_id2 user_role"
  unfolding handle_shared_with_me_def handle_list_submissions_def exclusive_start_key_Not_json
  by simp

text \<open>
  Claim C9 on the code. The user \<^verbatim>\<open>ann\<close> has one file shared with her, and asks for the
  list with a token that is JSON but no key of the index (\<^verbatim>\<open>5\<close>, \<^verbatim>\<open>null\<close>, \<^verbatim>\<open>[]\<close>).
  The token passes \<^verbatim>\<open>json.loads\<close> and is handed to the store as
  \<^verbatim>\<open>ExclusiveStartKey\<close>; the exception the store raises ends the request with a 500,
  where the same request without a token is answered with the first page. The list of
  the submissions of an assignment does the same.
\<close>

theorem token_not_a_key_answers_500:
  "handle_shared_with_me (\<lambda>file_id. False) [example_file ''active'']
     [example_share ''s1'' ''ann'' ''active'' None]
     10 No_param (Some (Json Other_json)) ''ann'' =
     Failure 500 ''Internal Server Error'' ''ParamValidationError'' \<and>
   handle_shared_with_me (\<lambda>file_id. False) [example_file ''active'']
     [example_share ''s1'' ''ann'' ''active'' None]
     10 No_param None ''ann'' =
     Success 200
       \<lparr> swm_files =
           [\<lparr> swm_fileId = ''f1'', swm_filename = ''notes.pdf'', swm_fileSize = 100,
              swm_contentType = ''application/pdf'', swm_sharedBy = ''owner'',
              swm_sharedAt = 0, swm_permissions = ''read'', swm_expiresAt = None,
              swm_message = None \<rparr>],
         swm_total = 1, swm_nextToken = None \<rparr> \<and>
   handle_list_submissions (example_counted 1) [example_record ''x1'' 50 1 False]
     (Some ''a1'') None No_param (Some (Json Other_json)) ''prof'' ''instructor'' =
     Failure 500 ''Internal Server Error'' ''ParamValidationError''"
  by (simp add: handle_shared_with_me_def handle_list_submissions_def exclusive_start_key_def
      read_limit_def query_page_def internal_error_def contains_instructor
      example_counted_def example_assignment_def query_AssignmentIdIndex_def
      example_share_def example_file_def shared_index_key_def query_FileIdIndex_def
      shared_file_of_def)

text \<open>
  A token on which \<^verbatim>\<open>json.loads\<close> raises \<^verbatim>\<open>RecursionError\<close> ends the request with a 500
  as well.
\<close>

lemma too_deep_token_answers_500:
  "handle_shared_with_me (\<lambda>file_id. False) [example_file ''active'']
     [example_share ''s1'' ''ann'' ''active'' None]
     10 No_param (Some Too_deep) ''ann'' =
     Failure 500 ''Internal Server Error'' ''RecursionError''"
  by (simp add: handle_shared_with_me_def exclusive_start_key_def read_limit_def
      internal_error_def)

end
